theory Spec2Isabelle
  imports Complex_Main "HOL-Library.Sublist"
begin

section \<open>Model Gateway: src/agent/claude.js\<close>

text \<open>
  The gateway calls an external backend (\<^verbatim>\<open>anthropic.messages.create\<close>), reads the clock
  (\<^verbatim>\<open>Date.now()\<close>) and sleeps (\<^verbatim>\<open>setTimeout\<close>). These effects are made explicit: a
  \<open>world\<close> carries the clock in milliseconds, the number of backend invocations made so
  far and the delays slept so far, in order. A backend is a script: its answer to the
  \<open>n\<close>-th invocation (counted from 0) of a request, together with the time that
  invocation takes. An error thrown by the backend is an object with a message and an
  optional numeric \<^verbatim>\<open>status\<close> (\<open>None\<close> is JavaScript's \<^verbatim>\<open>undefined\<close>). A successful
  response is well formed: it has a first content block and a usage record.
  JavaScript numbers that hold counts and milliseconds are modelled as \<open>nat\<close>; the cost,
  a binary64 value in the source, is computed over the reals.
\<close>

record api_error =
  err_message :: string
  status :: "nat option"

record response =
  content_text :: string
  response_model :: string
  input_tokens :: nat
  output_tokens :: nat

record request =
  req_model :: string
  max_tokens :: nat
  system :: string
  messages :: "(string \<times> string) list"

record attempt =
  took :: nat
  outcome :: "api_error + response"

type_synonym backend = "nat \<Rightarrow> request \<Rightarrow> attempt"

record 'a in_out =
  of_input :: 'a
  of_output :: 'a

record model_call_result =
  result_text :: string
  model :: string
  tokens :: "nat in_out"
  cost_usd :: real
  latency_ms :: nat

datatype status_code = Undefined | Null | Code nat

record agent_error =
  name :: string
  message :: string
  cause :: "api_error option"
  statusCode :: status_code

record world =
  now :: nat
  calls :: nat
  slept :: "nat list"
  env_ANTHROPIC_MODEL :: "string option"

definition COST_PER_TOKEN :: "real in_out" where
  "COST_PER_TOKEN = \<lparr>of_input = 3.0 / 1000000, of_output = 15.0 / 1000000\<rparr>"

definition MODEL :: "world \<Rightarrow> string" where
  "MODEL w = (case env_ANTHROPIC_MODEL w of
                None \<Rightarrow> ''claude-sonnet-4-5-20250929''
              | Some m \<Rightarrow> if m = [] then ''claude-sonnet-4-5-20250929'' else m)"

definition MAX_RETRIES :: nat where
  "MAX_RETRIES = 3"

text \<open>
  The constructor of \<^verbatim>\<open>AgentError\<close>: the cause and the status code are set only when a
  cause is given, and the status code is \<^verbatim>\<open>cause.status || null\<close>.
\<close>

definition AgentError :: "string \<Rightarrow> api_error option \<Rightarrow> agent_error" where
  "AgentError msg cause_opt =
     \<lparr>name = ''AgentError'', message = msg, cause = cause_opt,
      statusCode = (case cause_opt of
                      None \<Rightarrow> Undefined
                    | Some c \<Rightarrow> (case status c of
                                  None \<Rightarrow> Null
                                | Some s \<Rightarrow> if s = 0 then Null else Code s))\<rparr>"

definition sleep :: "nat \<Rightarrow> world \<Rightarrow> world" where
  "sleep ms w = w\<lparr>now := now w + ms, slept := slept w @ [ms]\<rparr>"

definition isRetryableError :: "api_error \<Rightarrow> bool" where
  "isRetryableError error =
     (case status error of
        None \<Rightarrow> False
      | Some s \<Rightarrow> (let retryableStatuses = [429, 529];
                      isServerError = (s \<ge> 500)
                  in s \<in> set retryableStatuses \<or> isServerError))"

text \<open>\<^verbatim>\<open>error.status && ...\<close>: an absent status and the status 0 are falsy.\<close>

definition truthy_status :: "api_error \<Rightarrow> bool" where
  "truthy_status error = (case status error of None \<Rightarrow> False | Some s \<Rightarrow> s \<noteq> 0)"

text \<open>One invocation of \<^verbatim>\<open>anthropic.messages.create\<close>.\<close>

definition messages_create :: "backend \<Rightarrow> request \<Rightarrow> world \<Rightarrow> (api_error + response) \<times> world" where
  "messages_create backend req w =
     (let a = backend (calls w) req
      in (outcome a, w\<lparr>now := now w + took a, calls := calls w + 1\<rparr>))"

text \<open>
  The \<^verbatim>\<open>for\<close> loop of \<^verbatim>\<open>callClaude\<close>. It is left either by \<^verbatim>\<open>return\<close> or by falling
  through to the code after the loop (by \<^verbatim>\<open>break\<close> or when the loop condition fails),
  with the last error caught so far.
\<close>

datatype loop_exit = Returned model_call_result | Fell_through "api_error option"

function attempts ::
  "backend \<Rightarrow> request \<Rightarrow> nat \<Rightarrow> nat \<Rightarrow> api_error option \<Rightarrow> world \<Rightarrow> loop_exit \<times> world" where
  "attempts backend req startTime attempt lastError w =
     (if attempt \<le> MAX_RETRIES then
        (case messages_create backend req w of
           (Inr response, w1) \<Rightarrow>
             (let latency = now w1 - startTime;
                  toks = \<lparr>of_input = input_tokens response, of_output = output_tokens response\<rparr>;
                  cost = real (of_input toks) * of_input COST_PER_TOKEN
                       + real (of_output toks) * of_output COST_PER_TOKEN
              in (Returned \<lparr>result_text = content_text response, model = response_model response,
                            tokens = toks, cost_usd = cost, latency_ms = latency\<rparr>, w1))
         | (Inl error, w1) \<Rightarrow>
             (let isRetryable = (truthy_status error \<and> isRetryableError error)
              in if \<not> isRetryable \<or> attempt = MAX_RETRIES then (Fell_through (Some error), w1)
                 else (let delay = min (1000 * 2 ^ (attempt - 1)) 10000
                       in attempts backend req startTime (attempt + 1) (Some error)
                            (sleep delay w1))))
      else (Fell_through lastError, w))"
  by pat_completeness auto
termination
  by (relation "measure (\<lambda>(backend, req, startTime, attempt, lastError, w). MAX_RETRIES + 1 - attempt)")
     auto

text \<open>
  What \<^verbatim>\<open>callClaude\<close> throws: an \<^verbatim>\<open>AgentError\<close>, or the \<^verbatim>\<open>TypeError\<close> of reading
  \<^verbatim>\<open>lastError.message\<close> when no error was caught.
\<close>

datatype gateway_throw = Throw_AgentError agent_error | Throw_TypeError

text \<open>The argument of \<^verbatim>\<open>anthropic.messages.create\<close>, the same at every attempt.\<close>

definition create_params :: "world \<Rightarrow> string \<Rightarrow> string \<Rightarrow> request" where
  "create_params w systemPrompt userMessage =
     \<lparr>req_model = MODEL w, max_tokens = 1024, system = systemPrompt,
      messages = [(''user'', userMessage)]\<rparr>"

definition callClaude ::
  "backend \<Rightarrow> string \<Rightarrow> string \<Rightarrow> string \<Rightarrow> world \<Rightarrow> (gateway_throw + model_call_result) \<times> world" where
  "callClaude backend systemPrompt userMessage traceId w =
     (let startTime = now w
      in case attempts backend (create_params w systemPrompt userMessage) startTime 1 None w of
           (Returned r, w') \<Rightarrow> (Inr r, w')
         | (Fell_through None, w') \<Rightarrow> (Inl Throw_TypeError, w')
         | (Fell_through (Some lastError), w') \<Rightarrow>
             (Inl (Throw_AgentError
                     (AgentError ''Claude API call failed after retries'' (Some lastError))), w'))"

section \<open>Knowledge Store: src/agent/knowledge.js\<close>

subsection \<open>Strings\<close>

text \<open>
  Strings are lists of 8-bit characters and the model covers ASCII text: \<open>toLowerCase\<close>
  maps the letters A to Z and leaves every other character as it is, white space is the
  ASCII part of the class \<^verbatim>\<open>\s\<close> (tab, line feed, vertical tab, form feed, carriage
  return, space) and the line terminators are line feed and carriage return.
\<close>

definition isWhiteSpace :: "char \<Rightarrow> bool" where
  "isWhiteSpace c \<longleftrightarrow> c \<in> set [CHR 0x09, CHR 0x0A, CHR 0x0B, CHR 0x0C, CHR 0x0D, CHR 0x20]"

definition isLineTerminator :: "char \<Rightarrow> bool" where
  "isLineTerminator c \<longleftrightarrow> c = CHR 0x0A \<or> c = CHR 0x0D"

definition toLowerCase_char :: "char \<Rightarrow> char" where
  "toLowerCase_char c =
     (let n = (of_char c :: nat) in if 65 \<le> n \<and> n \<le> 90 then char_of (n + 32) else c)"

definition toLowerCase :: "string \<Rightarrow> string" where
  "toLowerCase s = map toLowerCase_char s"

definition trim :: "string \<Rightarrow> string" where
  "trim s = rev (dropWhile isWhiteSpace (rev (dropWhile isWhiteSpace s)))"

definition endsWith :: "string \<Rightarrow> string \<Rightarrow> bool" where
  "endsWith s searchString \<longleftrightarrow>
     length searchString \<le> length s \<and> drop (length s - length searchString) s = searchString"

text \<open>
  \<^verbatim>\<open>s.split(/\s+/)\<close>: the fields between the maximal runs of white space; a run at either
  end of the string leaves an empty field there, and the empty string has one empty
  field. The flag says that the previous character was white space.
\<close>

fun split_spaces :: "bool \<Rightarrow> string \<Rightarrow> string \<Rightarrow> string list" where
  "split_spaces inSeparator field [] = [field]"
| "split_spaces inSeparator field (c # cs) =
     (if isWhiteSpace c then
        (if inSeparator then split_spaces True field cs
         else field # split_spaces True [] cs)
      else split_spaces False (field @ [c]) cs)"

subsection \<open>Chunks and the store\<close>

text \<open>
  A chunk is a JavaScript object with the properties \<^verbatim>\<open>id\<close>, \<^verbatim>\<open>title\<close>, \<^verbatim>\<open>content\<close>
  and \<^verbatim>\<open>source\<close>; a scored chunk has the property \<^verbatim>\<open>score\<close> as well (\<open>None\<close>: the
  object has no such property). Objects and arrays live in a store and are known by their
  addresses, so that sharing between the cache and the arrays built by a query is
  visible: an array holds addresses of objects. Allocation takes the next free address.
  The module variable \<^verbatim>\<open>chunksCache\<close> holds the address of the cached array, or
  \<^verbatim>\<open>null\<close>.
\<close>

record chunk =
  chunk_id :: string
  title :: string
  content :: string
  source :: string
  score :: "nat option"

record store =
  objects :: "chunk list"
  arrays :: "nat list list"
  chunksCache :: "nat option"

definition new_object :: "chunk \<Rightarrow> store \<Rightarrow> nat \<times> store" where
  "new_object obj st = (length (objects st), st\<lparr>objects := objects st @ [obj]\<rparr>)"

definition new_array :: "nat list \<Rightarrow> store \<Rightarrow> nat \<times> store" where
  "new_array elems st = (length (arrays st), st\<lparr>arrays := arrays st @ [elems]\<rparr>)"

text \<open>The objects an array holds, in order.\<close>

definition elements :: "store \<Rightarrow> nat \<Rightarrow> chunk list" where
  "elements st a = map (\<lambda>r. objects st ! r) (arrays st ! a)"

subsection \<open>parseMarkdownChunks\<close>

text \<open>
  \<^verbatim>\<open>content.split(/^## /m)\<close>: the text is cut at every \<^verbatim>\<open>## \<close> that stands at the start
  of a line. The flag says that the position is the start of a line.
\<close>

function split_sections :: "bool \<Rightarrow> string \<Rightarrow> string \<Rightarrow> string list" where
  "split_sections atLineStart piece s =
     (if s = [] then [piece]
      else if atLineStart \<and> take 3 s = ''## '' then piece # split_sections False [] (drop 3 s)
      else split_sections (isLineTerminator (hd s)) (piece @ [hd s]) (tl s))"
  by pat_completeness auto
termination
  by (relation "measure (\<lambda>(atLineStart, piece, s). length s)") auto

text \<open>
  \<^verbatim>\<open>intro.match(/^# (.+)/m)\<close>: the first line that starts with \<^verbatim>\<open># \<close> followed by at
  least one character other than a line terminator; the group is the rest of that line.
\<close>

fun match_h1 :: "bool \<Rightarrow> string \<Rightarrow> string option" where
  "match_h1 atLineStart [] = None"
| "match_h1 atLineStart (c # cs) =
     (let rest = takeWhile (\<lambda>x. \<not> isLineTerminator x) (drop 1 cs)
      in if atLineStart \<and> c = CHR ''#'' \<and> take 1 cs = '' '' \<and> rest \<noteq> [] then Some rest
         else match_h1 (isLineTerminator c) cs)"

text \<open>
  \<^verbatim>\<open>replace(/[^a-z0-9]+/g, '-')\<close>: every maximal run of characters other than lower-case
  letters and digits becomes one hyphen. The flag says that such a run is being read.
\<close>

definition isSlugChar :: "char \<Rightarrow> bool" where
  "isSlugChar c =
     (let n = (of_char c :: nat) in (97 \<le> n \<and> n \<le> 122) \<or> (48 \<le> n \<and> n \<le> 57))"

fun hyphenate :: "bool \<Rightarrow> string \<Rightarrow> string" where
  "hyphenate inRun [] = []"
| "hyphenate inRun (c # cs) =
     (if isSlugChar c then c # hyphenate False cs
      else if inRun then hyphenate True cs
      else CHR ''-'' # hyphenate True cs)"

definition section_chunk :: "string \<Rightarrow> string \<Rightarrow> chunk list" where
  "section_chunk filename sec =
     (let heading = trim (takeWhile (\<lambda>c. c \<noteq> CHR 0x0A) sec);
          body = trim (drop 1 (dropWhile (\<lambda>c. c \<noteq> CHR 0x0A) sec))
      in if body \<noteq> [] then
           (let slug = hyphenate False (toLowerCase heading)
            in [\<lparr>chunk_id = filename @ ''#'' @ slug, title = heading,
                 content = ''## '' @ heading @ [CHR 0x0A, CHR 0x0A] @ body,
                 source = filename, score = None\<rparr>])
         else [])"

definition parseMarkdownChunks :: "string \<Rightarrow> string \<Rightarrow> chunk list" where
  "parseMarkdownChunks text filename =
     (let sections = split_sections True [] text;
          intro = trim (hd sections);
          chunks = (if intro \<noteq> [] then
                      [\<lparr>chunk_id = filename @ ''#intro'',
                        title = (case match_h1 True intro of Some t \<Rightarrow> t | None \<Rightarrow> filename),
                        content = intro, source = filename, score = None\<rparr>]
                    else [])
      in chunks @ concat (map (section_chunk filename) (tl sections)))"

subsection \<open>loadKnowledge\<close>

text \<open>
  The knowledge directory is \<open>None\<close> when it does not exist, and otherwise the list of its
  entries in the order \<^verbatim>\<open>readdirSync\<close> gives them, each with the text \<^verbatim>\<open>readFileSync\<close>
  reads from it (every entry is a file that can be read). The chunks of the files are
  allocated in the store, then the array that holds them.
\<close>

type_synonym directory = "(string \<times> string) list option"

fun allocate_chunks :: "chunk list \<Rightarrow> store \<Rightarrow> nat list \<times> store" where
  "allocate_chunks [] st = ([], st)"
| "allocate_chunks (c # cs) st =
     (case new_object c st of (r, st1) \<Rightarrow>
        (case allocate_chunks cs st1 of (rs, st2) \<Rightarrow> (r # rs, st2)))"

definition loaded_chunks :: "(string \<times> string) list \<Rightarrow> chunk list" where
  "loaded_chunks entries =
     concat (map (\<lambda>(file, text). parseMarkdownChunks text (take (length file - 3) file))
               (filter (\<lambda>(file, text). endsWith file ''.md'') entries))"

definition loadKnowledge :: "directory \<Rightarrow> store \<Rightarrow> nat \<times> store" where
  "loadKnowledge knowledgeDir st =
     (case chunksCache st of
        Some cached \<Rightarrow> (cached, st)
      | None \<Rightarrow>
          (case knowledgeDir of
             None \<Rightarrow> (case new_array [] st of (a, st1) \<Rightarrow> (a, st1\<lparr>chunksCache := Some a\<rparr>))
           | Some entries \<Rightarrow>
               (case allocate_chunks (loaded_chunks entries) st of (refs, st1) \<Rightarrow>
                  (case new_array refs st1 of (allChunks, st2) \<Rightarrow>
                     (allChunks, st2\<lparr>chunksCache := Some allChunks\<rparr>)))))"

definition resetCache :: "store \<Rightarrow> store" where
  "resetCache st = st\<lparr>chunksCache := None\<rparr>"

subsection \<open>scoreChunk\<close>

text \<open>
  The regular expressions are the runtime's. The model takes the runtime's part as a
  parameter: \<open>rx source\<close> is what \<^verbatim>\<open>new RegExp(source, 'g')\<close> does, either throw
  (\<open>Inl\<close>) or give the expression, which is used in one way only: the number of matches
  \<^verbatim>\<open>(subject.match(re) || []).length\<close> it has in a subject. The two expressions built
  from one term are the same, so the term is compiled once.
\<close>

type_synonym 'e regexp = "string \<Rightarrow> 'e + (string \<Rightarrow> nat)"

definition queryTerms :: "string \<Rightarrow> string list" where
  "queryTerms query = filter (\<lambda>t. length t > 2) (split_spaces False [] (toLowerCase query))"

definition chunkText :: "chunk \<Rightarrow> string" where
  "chunkText chunk = toLowerCase (title chunk @ '' '' @ content chunk)"

fun score_terms :: "'e regexp \<Rightarrow> chunk \<Rightarrow> nat \<Rightarrow> string list \<Rightarrow> 'e + nat" where
  "score_terms rx chunk acc [] = Inr acc"
| "score_terms rx chunk acc (t # ts) =
     (case rx t of
        Inl e \<Rightarrow> Inl e
      | Inr matches \<Rightarrow>
          (let titleMatches = matches (toLowerCase (title chunk));
               bodyMatches = matches (chunkText chunk)
           in score_terms rx chunk (acc + (titleMatches * 3 + bodyMatches)) ts))"

definition scoreChunk :: "'e regexp \<Rightarrow> string \<Rightarrow> chunk \<Rightarrow> 'e + nat" where
  "scoreChunk rx query chunk = score_terms rx chunk 0 (queryTerms query)"

subsection \<open>findRelevantChunks\<close>

text \<open>
  \<^verbatim>\<open>chunks.map((chunk) => ({ ...chunk, score: scoreChunk(query, chunk) }))\<close>: for each
  element in turn a new object is allocated, a copy of the element with the score set; the
  first exception ends the traversal.
\<close>

fun map_scored :: "'e regexp \<Rightarrow> string \<Rightarrow> nat list \<Rightarrow> store \<Rightarrow> ('e + nat list) \<times> store" where
  "map_scored rx query [] st = (Inr [], st)"
| "map_scored rx query (r # rs) st =
     (let chunk = objects st ! r
      in case scoreChunk rx query chunk of
           Inl e \<Rightarrow> (Inl e, st)
         | Inr s \<Rightarrow>
             (case new_object (chunk\<lparr>score := Some s\<rparr>) st of (r', st1) \<Rightarrow>
                (case map_scored rx query rs st1 of
                   (Inl e, st2) \<Rightarrow> (Inl e, st2)
                 | (Inr rs', st2) \<Rightarrow> (Inr (r' # rs'), st2))))"

text \<open>
  The score read by \<^verbatim>\<open>filter\<close> and by the comparison of \<^verbatim>\<open>sort\<close>. Every object they
  read has the property; without it the comparisons of the source are false or
  \<^verbatim>\<open>NaN\<close>, which the sort takes for 0.
\<close>

definition score_of :: "chunk \<Rightarrow> nat" where
  "score_of c = (case score c of None \<Rightarrow> 0 | Some s \<Rightarrow> s)"

text \<open>
  \<^verbatim>\<open>Array.prototype.sort\<close> is stable and sorts the array in place; with the comparison
  \<^verbatim>\<open>b.score - a.score\<close> the order is by descending score.
\<close>

definition sort_in_place :: "nat \<Rightarrow> store \<Rightarrow> store" where
  "sort_in_place a st =
     st\<lparr>arrays := (arrays st)[a := sort_key (\<lambda>r. - int (score_of (objects st ! r))) (arrays st ! a)]\<rparr>"

definition findRelevantChunks ::
  "'e regexp \<Rightarrow> directory \<Rightarrow> string \<Rightarrow> nat \<Rightarrow> store \<Rightarrow> ('e + nat) \<times> store" where
  "findRelevantChunks rx knowledgeDir query topK st =
     (case loadKnowledge knowledgeDir st of (chunks, st1) \<Rightarrow>
        (case map_scored rx query (arrays st1 ! chunks) st1 of
           (Inl e, st2) \<Rightarrow> (Inl e, st2)
         | (Inr refs, st2) \<Rightarrow>
             (case new_array refs st2 of (mapped, st3) \<Rightarrow>
                (case new_array (filter (\<lambda>r. score_of (objects st3 ! r) > 0) (arrays st3 ! mapped)) st3
                 of (filtered, st4) \<Rightarrow>
                   (let st5 = sort_in_place filtered st4
                    in case new_array (take topK (arrays st5 ! filtered)) st5
                       of (scored, st6) \<Rightarrow> (Inr scored, st6))))))"

subsection \<open>A fragment of the runtime's regular expressions\<close>

text \<open>
  For the evaluation of concrete queries, the pattern language is modelled on a fragment:
  a sequence of atoms, each a literal ASCII character or the dot, each followed by at
  most one of the greedy quantifiers \<^verbatim>\<open>*\<close>, \<^verbatim>\<open>+\<close> and \<^verbatim>\<open>?\<close>. Reading the source
  from the left, a quantifier with nothing before it to repeat is the runtime's
  \<^verbatim>\<open>SyntaxError\<close> (whatever follows it); a construct outside the fragment (an
  assertion, an escape, a group, a class, a brace, an alternative, a lazy quantifier, a
  character outside ASCII) met before that is reported as such, and nothing is said about
  the pattern.
\<close>

datatype atom = Literal char | Dot

datatype quantifier = Once | Star | Plus | Optional

datatype regexp_failure = SyntaxError | OutsideFragment

definition isQuantifier :: "char \<Rightarrow> bool" where
  "isQuantifier c \<longleftrightarrow> c \<in> set ''*+?''"

definition isOutsideFragment :: "char \<Rightarrow> bool" where
  "isOutsideFragment c \<longleftrightarrow> c \<in> set (CHR 0x5C # ''^$()[]{}|'') \<or> (of_char c :: nat) \<ge> 128"

definition quantifier_of :: "char \<Rightarrow> quantifier" where
  "quantifier_of c = (if c = CHR ''*'' then Star else if c = CHR ''+'' then Plus else Optional)"

definition atom_of :: "char \<Rightarrow> atom" where
  "atom_of c = (if c = CHR ''.'' then Dot else Literal c)"

fun parse_pattern :: "string \<Rightarrow> regexp_failure + (atom \<times> quantifier) list" where
  "parse_pattern [] = Inr []"
| "parse_pattern [c] =
     (if isQuantifier c then Inl SyntaxError
      else if isOutsideFragment c then Inl OutsideFragment
      else Inr [(atom_of c, Once)])"
| "parse_pattern (c # q # cs) =
     (if isQuantifier c then Inl SyntaxError
      else if isOutsideFragment c then Inl OutsideFragment
      else if isQuantifier q then
        (if take 1 cs = ''?'' then Inl OutsideFragment
         else (case parse_pattern cs of
                 Inl e \<Rightarrow> Inl e
               | Inr items \<Rightarrow> Inr ((atom_of c, quantifier_of q) # items)))
      else (case parse_pattern (q # cs) of
              Inl e \<Rightarrow> Inl e
            | Inr items \<Rightarrow> Inr ((atom_of c, Once) # items)))"

definition atom_matches :: "atom \<Rightarrow> char \<Rightarrow> bool" where
  "atom_matches a c = (case a of Literal l \<Rightarrow> c = l | Dot \<Rightarrow> \<not> isLineTerminator c)"

text \<open>
  The backtracking match at the head of the subject: the length of the first match in
  the order of the runtime's search, in which a greedy quantifier tries the longer
  repetition first.
\<close>

fun match_here :: "(atom \<times> quantifier) list \<Rightarrow> string \<Rightarrow> nat option" where
  "match_here [] s = Some 0"
| "match_here ((a, Once) # items) s =
     (case s of
        [] \<Rightarrow> None
      | c # cs \<Rightarrow> if atom_matches a c then map_option Suc (match_here items cs) else None)"
| "match_here ((a, Plus) # items) s =
     (case s of
        [] \<Rightarrow> None
      | c # cs \<Rightarrow> if atom_matches a c then map_option Suc (match_here ((a, Star) # items) cs)
                  else None)"
| "match_here ((a, Optional) # items) s =
     (case s of
        [] \<Rightarrow> match_here items s
      | c # cs \<Rightarrow>
          if atom_matches a c then
            (case match_here items cs of
               Some n \<Rightarrow> Some (Suc n)
             | None \<Rightarrow> match_here items s)
          else match_here items s)"
| "match_here ((a, Star) # items) s =
     (case s of
        [] \<Rightarrow> match_here items s
      | c # cs \<Rightarrow>
          if atom_matches a c then
            (case match_here ((a, Star) # items) cs of
               Some n \<Rightarrow> Some (Suc n)
             | None \<Rightarrow> match_here items s)
          else match_here items s)"

text \<open>
  \<^verbatim>\<open>subject.match(re)\<close> with the flag \<^verbatim>\<open>g\<close>: the matches are searched from the left,
  each search starting where the previous match ended, or one character further when
  that match was empty.
\<close>

fun count_matches :: "(atom \<times> quantifier) list \<Rightarrow> string \<Rightarrow> nat" where
  "count_matches items [] = (case match_here items [] of None \<Rightarrow> 0 | Some n \<Rightarrow> 1)"
| "count_matches items (c # cs) =
     (case match_here items (c # cs) of
        None \<Rightarrow> count_matches items cs
      | Some 0 \<Rightarrow> 1 + count_matches items cs
      | Some (Suc n) \<Rightarrow> 1 + count_matches items (drop n cs))"

definition RegExp_g :: "regexp_failure regexp" where
  "RegExp_g src = (case parse_pattern src of Inl e \<Rightarrow> Inl e | Inr items \<Rightarrow> Inr (count_matches items))"

subsection \<open>Reachable stores and sequences of queries\<close>

text \<open>
  In a store the program can reach, no reference dangles: the cached array exists and
  each of its elements is the address of an object. This is the case of the store at
  module load, and every operation of the module keeps it so.
\<close>

definition wf_store :: "store \<Rightarrow> bool" where
  "wf_store st \<longleftrightarrow>
     (case chunksCache st of
        None \<Rightarrow> True
      | Some a \<Rightarrow> a < length (arrays st) \<and> list_all (\<lambda>r. r < length (objects st)) (arrays st ! a))"

text \<open>The chunk sequence the cache holds (empty while nothing is cached).\<close>

definition cached_chunks :: "store \<Rightarrow> chunk list" where
  "cached_chunks st = (case chunksCache st of None \<Rightarrow> [] | Some a \<Rightarrow> elements st a)"

text \<open>The score a query gives a chunk, when scoring it does not throw.\<close>

definition score_value :: "'e regexp \<Rightarrow> string \<Rightarrow> chunk \<Rightarrow> nat" where
  "score_value rx query c = (case scoreChunk rx query c of Inl e \<Rightarrow> 0 | Inr s \<Rightarrow> s)"

text \<open>
  A sequence of calls of \<open>findRelevantChunks\<close>, each with its query and its \<open>topK\<close>;
  a call that throws leaves the store as it is at the throw.
\<close>

fun queries :: "'e regexp \<Rightarrow> directory \<Rightarrow> (string \<times> nat) list \<Rightarrow> store \<Rightarrow> store" where
  "queries rx knowledgeDir [] st = st"
| "queries rx knowledgeDir ((query, topK) # rest) st =
     queries rx knowledgeDir rest (snd (findRelevantChunks rx knowledgeDir query topK st))"

section \<open>Trace Recorder and Orchestrator: src/agent/tracing.js, src/agent/index.js\<close>

subsection \<open>recordTrace\<close>

text \<open>
  The recorder's module state: whether tracing is enabled, whether both keys are
  configured, whether the client has been created, and the records the client has been
  given. The client is external; a record handed to it is kept in the order of arrival.
\<close>

record trace_params =
  tr_traceId :: string
  tr_sessionId :: "string option"
  tr_input :: string
  tr_output :: string
  tr_model :: string
  tr_tokens :: "nat in_out"
  tr_cost_usd :: real
  tr_latency_ms :: nat
  tr_knowledgeChunks :: "string list"
  tr_systemPrompt :: string

record tracing =
  LANGFUSE_ENABLED :: bool
  keys_configured :: bool
  langfuseClient :: bool
  traces :: "trace_params list"

definition getLangfuseClient :: "tracing \<Rightarrow> bool \<times> tracing" where
  "getLangfuseClient tr =
     (if \<not> LANGFUSE_ENABLED tr then (False, tr)
      else if \<not> langfuseClient tr then
        (if \<not> keys_configured tr then (False, tr) else (True, tr\<lparr>langfuseClient := True\<rparr>))
      else (True, tr))"

definition recordTrace :: "trace_params \<Rightarrow> tracing \<Rightarrow> tracing" where
  "recordTrace params tr =
     (case getLangfuseClient tr of
        (False, tr1) \<Rightarrow> tr1
      | (True, tr1) \<Rightarrow> tr1\<lparr>traces := traces tr1 @ [params]\<rparr>)"

subsection \<open>ask\<close>

text \<open>\<^verbatim>\<open>Array.prototype.join\<close>.\<close>

fun join :: "string \<Rightarrow> string list \<Rightarrow> string" where
  "join separator [] = []"
| "join separator [x] = x"
| "join separator (x # y # ys) = x @ separator @ join separator (y # ys)"

text \<open>
  The prompt template. The dash of its ninth line is outside ASCII and stands here as the
  three bytes of its UTF-8 encoding.
\<close>

definition SYSTEM_PROMPT_TEMPLATE :: "chunk list \<Rightarrow> string" where
  "SYSTEM_PROMPT_TEMPLATE contextChunks =
     ''You are a helpful support agent for TechCorp API.\<newline>''
     @ ''You answer developer questions based strictly on the provided documentation.\<newline>''
     @ ''\<newline>''
     @ ''DOCUMENTATION CONTEXT:\<newline>''
     @ join ''\<newline>\<newline>---\<newline>\<newline>'' (map content contextChunks) @ ''\<newline>''
     @ ''\<newline>''
     @ ''INSTRUCTIONS:\<newline>''
     @ ''- Answer only questions related to TechCorp API\<newline>''
     @ ''- If the answer is not in the documentation, say so clearly ''
     @ [CHR 0xE2, CHR 0x80, CHR 0x94] @ '' do not invent information\<newline>''
     @ ''- Keep answers concise and developer-friendly\<newline>''
     @ ''- Include relevant code examples when helpful\<newline>''
     @ ''- Cite the documentation section you used (e.g., '' @ [CHR 0x22]
     @ ''According to the Authentication section...'' @ [CHR 0x22] @ '')\<newline>''
     @ ''- If asked in French, respond in French; otherwise respond in English''"

text \<open>
  The state of the service: the world of the gateway, the store of the knowledge module,
  the state of the recorder and the number of identifiers drawn so far from the generator
  \<^verbatim>\<open>uuidv4\<close>, which is given as the sequence of the identifiers it produces.
\<close>

record service =
  gateway :: world
  knowledge :: store
  recorder :: tracing
  uuids_drawn :: nat

record agent_result =
  answer :: string
  trace_id :: string
  total_latency_ms :: nat
  tokens_used :: nat
  total_cost_usd :: real
  knowledge_chunks :: "string list"

text \<open>
  What \<open>ask\<close> throws: what the retrieval threw, or what the gateway threw, rethrown by
  the \<^verbatim>\<open>catch\<close> block as it is.
\<close>

datatype 'e ask_throw = Thrown_by_retrieval 'e | Thrown_by_gateway gateway_throw

definition ask ::
  "'e regexp \<Rightarrow> directory \<Rightarrow> backend \<Rightarrow> (nat \<Rightarrow> string) \<Rightarrow> string \<Rightarrow> string option \<Rightarrow> service
     \<Rightarrow> ('e ask_throw + agent_result) \<times> service" where
  "ask rx knowledgeDir backend uuidv4 question sessionId sv =
     (let traceId = uuidv4 (uuids_drawn sv);
          sv1 = sv\<lparr>uuids_drawn := uuids_drawn sv + 1\<rparr>;
          startTime = now (gateway sv1)
      in case findRelevantChunks rx knowledgeDir question 3 (knowledge sv1) of
           (Inl e, st) \<Rightarrow> (Inl (Thrown_by_retrieval e), sv1\<lparr>knowledge := st\<rparr>)
         | (Inr relevantChunks, st) \<Rightarrow>
             (let sv2 = sv1\<lparr>knowledge := st\<rparr>;
                  chunkIds = map chunk_id (elements st relevantChunks);
                  systemPrompt = SYSTEM_PROMPT_TEMPLATE (elements st relevantChunks)
              in case callClaude backend systemPrompt question traceId (gateway sv2) of
                   (Inl error, w) \<Rightarrow> (Inl (Thrown_by_gateway error), sv2\<lparr>gateway := w\<rparr>)
                 | (Inr claudeResult, w) \<Rightarrow>
                     (let totalLatency = now w - startTime;
                          sv3 = sv2\<lparr>gateway := w,
                                    recorder := recordTrace
                                      \<lparr>tr_traceId = traceId, tr_sessionId = sessionId,
                                       tr_input = question, tr_output = result_text claudeResult,
                                       tr_model = model claudeResult, tr_tokens = tokens claudeResult,
                                       tr_cost_usd = cost_usd claudeResult,
                                       tr_latency_ms = totalLatency,
                                       tr_knowledgeChunks = chunkIds,
                                       tr_systemPrompt = systemPrompt\<rparr> (recorder sv2)\<rparr>
                      in (Inr \<lparr>answer = result_text claudeResult, trace_id = traceId,
                               total_latency_ms = totalLatency,
                               tokens_used = of_input (tokens claudeResult)
                                           + of_output (tokens claudeResult),
                               total_cost_usd = cost_usd claudeResult,
                               knowledge_chunks = chunkIds\<rparr>, sv3))))"

section \<open>Concrete worlds and backends\<close>

text \<open>
  The fixtures of the repository's unit tests: a fresh world, the successful response, a
  backend that is rate limited twice before it answers, one that rejects the API key, one
  whose first invocation exceeds the per-call timeout (the client then throws an error
  that carries no status), and one that reports a usage of a million tokens each way.
\<close>

definition world0 :: world where
  "world0 = \<lparr>now = 0, calls = 0, slept = [], env_ANTHROPIC_MODEL = None\<rparr>"

definition CLAUDE_SUCCESS_RESPONSE :: response where
  "CLAUDE_SUCCESS_RESPONSE =
     \<lparr>content_text = ''To authenticate, use Bearer token in the Authorization header.'',
      response_model = ''claude-sonnet-4-5-20250929'', input_tokens = 250, output_tokens = 75\<rparr>"

definition rateLimitError :: api_error where
  "rateLimitError = \<lparr>err_message = ''Rate limited'', status = Some 429\<rparr>"

definition backend_429_429_ok :: backend where
  "backend_429_429_ok n req =
     (if n < 2 then \<lparr>took = 100, outcome = Inl rateLimitError\<rparr>
      else \<lparr>took = 200, outcome = Inr CLAUDE_SUCCESS_RESPONSE\<rparr>)"

definition apiError :: api_error where
  "apiError = \<lparr>err_message = ''Invalid API key'', status = Some 401\<rparr>"

definition backend_401 :: backend where
  "backend_401 n req = \<lparr>took = 50, outcome = Inl apiError\<rparr>"

definition timeoutError :: api_error where
  "timeoutError = \<lparr>err_message = ''Request timed out.'', status = None\<rparr>"

definition backend_timeout_then_ok :: backend where
  "backend_timeout_then_ok n req =
     (if n = 0 then \<lparr>took = 30000, outcome = Inl timeoutError\<rparr>
      else \<lparr>took = 200, outcome = Inr CLAUDE_SUCCESS_RESPONSE\<rparr>)"

definition backend_million :: backend where
  "backend_million n req =
     \<lparr>took = 200,
      outcome = Inr (CLAUDE_SUCCESS_RESPONSE\<lparr>input_tokens := 1000000, output_tokens := 1000000\<rparr>)\<rparr>"

subsection \<open>A knowledge directory\<close>

text \<open>
  One markdown document with a title, an introduction and two sections, beside a file
  that is not markdown; the store at module load; the three chunks of the document.
\<close>

definition guide_md :: string where
  "guide_md = ''# API Guide\<newline>\<newline>Welcome to the API.\<newline>\<newline>## Authentication\<newline>\<newline>Send a Bearer token.\<newline>\<newline>## Limits\<newline>\<newline>Failed authentication is rate limited.\<newline>''"

definition knowledge_dir :: directory where
  "knowledge_dir = Some [(''guide.md'', guide_md), (''notes.txt'', ''not markdown'')]"

definition store0 :: store where
  "store0 = \<lparr>objects = [], arrays = [], chunksCache = None\<rparr>"

definition intro_chunk :: chunk where
  "intro_chunk = \<lparr>chunk_id = ''guide#intro'', title = ''API Guide'',
                   content = ''# API Guide\<newline>\<newline>Welcome to the API.'', source = ''guide'',
                   score = None\<rparr>"

definition authentication_chunk :: chunk where
  "authentication_chunk =
     \<lparr>chunk_id = ''guide#authentication'', title = ''Authentication'',
      content = ''## Authentication\<newline>\<newline>Send a Bearer token.'', source = ''guide'',
      score = None\<rparr>"

definition limits_chunk :: chunk where
  "limits_chunk =
     \<lparr>chunk_id = ''guide#limits'', title = ''Limits'',
      content = ''## Limits\<newline>\<newline>Failed authentication is rate limited.'', source = ''guide'',
      score = None\<rparr>"

definition loaded_store :: store where
  "loaded_store =
     \<lparr>objects = [intro_chunk, authentication_chunk, limits_chunk], arrays = [[0, 1, 2]],
      chunksCache = Some 0\<rparr>"

subsection \<open>A service\<close>

text \<open>
  The service after the knowledge base has been loaded, with tracing configured, and a
  generator of identifiers.
\<close>

definition uuid_fixture :: "nat \<Rightarrow> string" where
  "uuid_fixture n = (if n = 0 then ''3f2b8c1e-0d4a-4e6f-9a7b-5c1d2e3f4a5b''
                     else ''7a1c9e2d-4b6f-4a8c-b3d5-'' @ replicate 12 (char_of (48 + n mod 10)))"

definition service0 :: service where
  "service0 = \<lparr>gateway = world0, knowledge = loaded_store,
               recorder = \<lparr>LANGFUSE_ENABLED = True, keys_configured = True,
                           langfuseClient = False, traces = []\<rparr>,
               uuids_drawn = 0\<rparr>"

section \<open>The retry loop of the Model Gateway\<close>

declare attempts.simps [simp del]

text \<open>The three ways through one pass of the loop body.\<close>

lemma attempts_returns:
  assumes "attempt \<le> MAX_RETRIES" and "outcome (backend (calls w) req) = Inr resp"
  shows "attempts backend req startTime attempt lastError w =
           (Returned \<lparr>result_text = content_text resp, model = response_model resp,
                      tokens = \<lparr>of_input = input_tokens resp, of_output = output_tokens resp\<rparr>,
                      cost_usd = real (input_tokens resp) * of_input COST_PER_TOKEN
                               + real (output_tokens resp) * of_output COST_PER_TOKEN,
                      latency_ms = now w + took (backend (calls w) req) - startTime\<rparr>,
            w\<lparr>now := now w + took (backend (calls w) req), calls := calls w + 1\<rparr>)"
  using assms by (subst attempts.simps) (simp add: messages_create_def Let_def)

lemma attempts_gives_up:
  assumes "attempt \<le> MAX_RETRIES" and "outcome (backend (calls w) req) = Inl e"
    and "\<not> (truthy_status e \<and> isRetryableError e) \<or> attempt = MAX_RETRIES"
  shows "attempts backend req startTime attempt lastError w =
           (Fell_through (Some e),
            w\<lparr>now := now w + took (backend (calls w) req), calls := calls w + 1\<rparr>)"
  using assms by (subst attempts.simps) (auto simp add: messages_create_def Let_def)

lemma attempts_retries:
  assumes "attempt < MAX_RETRIES" and "outcome (backend (calls w) req) = Inl e"
    and "truthy_status e" and "isRetryableError e"
  shows "attempts backend req startTime attempt lastError w =
           attempts backend req startTime (attempt + 1) (Some e)
             (sleep (min (1000 * 2 ^ (attempt - 1)) 10000)
                (w\<lparr>now := now w + took (backend (calls w) req), calls := calls w + 1\<rparr>))"
  using assms by (subst attempts.simps) (simp add: messages_create_def Let_def)

lemma retryable_status:
  assumes "status e = Some s" and "s = 429 \<or> s = 529 \<or> 500 \<le> s"
  shows "truthy_status e \<and> isRetryableError e"
  using assms by (auto simp add: truthy_status_def isRetryableError_def)

lemma callClaude_returns_iff:
  "callClaude backend systemPrompt userMessage traceId w = (Inr r, w') \<longleftrightarrow>
   attempts backend (create_params w systemPrompt userMessage) (now w) 1 None w = (Returned r, w')"
  by (auto simp add: callClaude_def split: prod.splits loop_exit.splits option.splits)

text \<open>
  Whatever the loop returns was built from the response of the last invocation, and its
  latency is measured from the start time the loop was given.
\<close>

lemma attempts_Returned:
  assumes "attempts backend req startTime attempt lastError w = (Returned r, w')"
  shows "latency_ms r = now w' - startTime
       \<and> calls w < calls w'
       \<and> (\<exists>resp. outcome (backend (calls w' - 1) req) = Inr resp
              \<and> result_text r = content_text resp \<and> model r = response_model resp
              \<and> tokens r = \<lparr>of_input = input_tokens resp, of_output = output_tokens resp\<rparr>)
       \<and> cost_usd r = real (of_input (tokens r)) * of_input COST_PER_TOKEN
                     + real (of_output (tokens r)) * of_output COST_PER_TOKEN"
  using assms
proof (induction backend req startTime attempt lastError w rule: attempts.induct)
  case (1 backend req startTime attempt lastError w)
  show ?case
  proof (cases "outcome (backend (calls w) req)")
    case (Inr resp)
    with "1.prems" show ?thesis
      by (subst (asm) attempts.simps)
         (auto simp add: messages_create_def Let_def split: if_splits)
  next
    case (Inl e)
    let ?w1 = "w\<lparr>now := now w + took (backend (calls w) req), calls := calls w + 1\<rparr>"
    let ?d = "min (1000 * 2 ^ (attempt - 1)) 10000"
    from "1.prems" Inl have le: "attempt \<le> MAX_RETRIES"
      and go: "\<not> (\<not> (truthy_status e \<and> isRetryableError e) \<or> attempt = MAX_RETRIES)"
      and rec: "attempts backend req startTime (attempt + 1) (Some e) (sleep ?d ?w1) = (Returned r, w')"
      by (subst (asm) attempts.simps; simp add: messages_create_def Let_def split: if_splits)+
    have mc: "messages_create backend req w = (Inl e, ?w1)"
      using Inl by (simp add: messages_create_def Let_def)
    have "latency_ms r = now w' - startTime
       \<and> calls (sleep ?d ?w1) < calls w'
       \<and> (\<exists>resp. outcome (backend (calls w' - 1) req) = Inr resp
              \<and> result_text r = content_text resp \<and> model r = response_model resp
              \<and> tokens r = \<lparr>of_input = input_tokens resp, of_output = output_tokens resp\<rparr>)
       \<and> cost_usd r = real (of_input (tokens r)) * of_input COST_PER_TOKEN
                     + real (of_output (tokens r)) * of_output COST_PER_TOKEN"
      using "1.IH" [OF le mc [symmetric] refl refl _ refl rec] go by simp
    then show ?thesis by (simp add: sleep_def)
  qed
qed

text \<open>
  C1. A backend that fails with a retryable status (429, 529, or 500 and above) on the
  first two attempts and succeeds on the third: \<open>callClaude\<close> returns the result built
  from the third response, the backend has been invoked exactly three times, and the
  gateway has slept 1000 ms after attempt 1 and 2000 ms after attempt 2, which are
  \<open>min (1000 * 2 ^ (attempt - 1)) 10000\<close> for the attempts 1 and 2.
\<close>

theorem callClaude_retries_twice_then_returns:
  assumes f1: "outcome (backend (calls w) (create_params w systemPrompt userMessage)) = Inl e1"
      and s1: "status e1 = Some s1" and r1: "s1 = 429 \<or> s1 = 529 \<or> 500 \<le> s1"
      and f2: "outcome (backend (calls w + 1) (create_params w systemPrompt userMessage)) = Inl e2"
      and s2: "status e2 = Some s2" and r2: "s2 = 429 \<or> s2 = 529 \<or> 500 \<le> s2"
      and ok: "outcome (backend (calls w + 2) (create_params w systemPrompt userMessage)) = Inr resp"
      and t1: "t1 = took (backend (calls w) (create_params w systemPrompt userMessage))"
      and t2: "t2 = took (backend (calls w + 1) (create_params w systemPrompt userMessage))"
      and t3: "t3 = took (backend (calls w + 2) (create_params w systemPrompt userMessage))"
  shows "callClaude backend systemPrompt userMessage traceId w =
           (Inr \<lparr>result_text = content_text resp, model = response_model resp,
                 tokens = \<lparr>of_input = input_tokens resp, of_output = output_tokens resp\<rparr>,
                 cost_usd = real (input_tokens resp) * of_input COST_PER_TOKEN
                          + real (output_tokens resp) * of_output COST_PER_TOKEN,
                 latency_ms = t1 + 1000 + t2 + 2000 + t3\<rparr>,
            w\<lparr>now := now w + t1 + 1000 + t2 + 2000 + t3, calls := calls w + 3,
              slept := slept w @ [1000, 2000]\<rparr>)
       \<and> [1000, 2000::nat] = map (\<lambda>attempt. min (1000 * 2 ^ (attempt - 1)) 10000) [1, 2::nat]"
proof -
  let ?req = "create_params w systemPrompt userMessage"
  let ?w1 = "sleep 1000 (w\<lparr>now := now w + took (backend (calls w) ?req), calls := calls w + 1\<rparr>)"
  let ?w2 = "sleep 2000
                (?w1\<lparr>now := now ?w1 + took (backend (calls ?w1) ?req), calls := calls ?w1 + 1\<rparr>)"
  let ?w3 = "?w2\<lparr>now := now ?w2 + took (backend (calls ?w2) ?req), calls := calls ?w2 + 1\<rparr>"
  let ?r = "\<lparr>result_text = content_text resp, model = response_model resp,
             tokens = \<lparr>of_input = input_tokens resp, of_output = output_tokens resp\<rparr>,
             cost_usd = real (input_tokens resp) * of_input COST_PER_TOKEN
                      + real (output_tokens resp) * of_output COST_PER_TOKEN,
             latency_ms = now ?w2 + took (backend (calls ?w2) ?req) - now w\<rparr>"
  have c1: "calls ?w1 = calls w + 1" by (simp add: sleep_def)
  have c2: "calls ?w2 = calls w + 2" by (simp add: sleep_def)
  have a1: "attempts backend ?req (now w) (Suc 0) None w
              = attempts backend ?req (now w) (Suc (Suc 0)) (Some e1) ?w1"
    using attempts_retries [of "Suc 0" backend w ?req e1 "now w" None] retryable_status [OF s1 r1] f1
    by (simp add: MAX_RETRIES_def)
  have a2: "attempts backend ?req (now w) (Suc (Suc 0)) (Some e1) ?w1
              = attempts backend ?req (now w) (Suc (Suc (Suc 0))) (Some e2) ?w2"
    using attempts_retries [of "Suc (Suc 0)" backend ?w1 ?req e2 "now w" "Some e1"]
      retryable_status [OF s2 r2] f2 c1
    by (simp add: MAX_RETRIES_def)
  have a3: "attempts backend ?req (now w) (Suc (Suc (Suc 0))) (Some e2) ?w2 = (Returned ?r, ?w3)"
    using ok c2 attempts_returns [of "Suc (Suc (Suc 0))" backend ?w2 ?req resp "now w" "Some e2"]
    by (simp add: MAX_RETRIES_def)
  have "attempts backend ?req (now w) 1 None w = (Returned ?r, ?w3)"
    using a1 a2 a3 by simp
  then have "callClaude backend systemPrompt userMessage traceId w = (Inr ?r, ?w3)"
    by (simp add: callClaude_returns_iff)
  moreover have "[1000, 2000::nat] = map (\<lambda>attempt. min (1000 * 2 ^ (attempt - 1)) 10000) [1, 2::nat]"
    by simp
  moreover have "?w3 = w\<lparr>now := now w + t1 + 1000 + t2 + 2000 + t3, calls := calls w + 3,
                          slept := slept w @ [1000, 2000]\<rparr>"
    using t1 t2 t3 by (simp add: sleep_def)
  moreover have "now ?w2 + took (backend (calls ?w2) ?req) - now w = t1 + 1000 + t2 + 2000 + t3"
    using t1 t2 t3 by (simp add: sleep_def)
  ultimately show ?thesis
    by simp
qed

theorem callClaude_retries_twice_then_returns_witness:
  "callClaude backend_429_429_ok ''system'' ''user'' ''trace-retry'' world0 =
     (Inr \<lparr>result_text = ''To authenticate, use Bearer token in the Authorization header.'',
           model = ''claude-sonnet-4-5-20250929'',
           tokens = \<lparr>of_input = 250, of_output = 75\<rparr>, cost_usd = 0.001875, latency_ms = 3400\<rparr>,
      \<lparr>now = 3400, calls = 3, slept = [1000, 2000], env_ANTHROPIC_MODEL = None\<rparr>)"
proof -
  let ?req = "create_params world0 ''system'' ''user''"
  have f1: "outcome (backend_429_429_ok (calls world0) ?req) = Inl rateLimitError"
    and f2: "outcome (backend_429_429_ok (calls world0 + 1) ?req) = Inl rateLimitError"
    and ok: "outcome (backend_429_429_ok (calls world0 + 2) ?req) = Inr CLAUDE_SUCCESS_RESPONSE"
    and t1: "100 = took (backend_429_429_ok (calls world0) ?req)"
    and t2: "100 = took (backend_429_429_ok (calls world0 + 1) ?req)"
    and t3: "200 = took (backend_429_429_ok (calls world0 + 2) ?req)"
    by (simp_all add: backend_429_429_ok_def world0_def)
  have s: "status rateLimitError = Some 429"
    by (simp add: rateLimitError_def)
  have r: "(429::nat) = 429 \<or> (429::nat) = 529 \<or> (500::nat) \<le> 429"
    by simp
  show ?thesis
    using callClaude_retries_twice_then_returns
            [where backend = backend_429_429_ok and w = world0 and systemPrompt = "''system''"
               and userMessage = "''user''" and traceId = "''trace-retry''",
             OF f1 s r f2 s r ok t1 t2 t3]
    by (simp add: world0_def CLAUDE_SUCCESS_RESPONSE_def COST_PER_TOKEN_def)
qed

text \<open>
  C2. A backend whose first answer is an error with a non-retryable status, that is an
  HTTP status (100 to 599) other than 429, 529 and the 5xx: \<open>callClaude\<close> throws after
  that single invocation, without sleeping, an \<open>AgentError\<close> whose cause is the backend's
  error and whose status code is that error's status.
\<close>

theorem callClaude_non_retryable_fails_at_once:
  assumes "outcome (backend (calls w) (create_params w systemPrompt userMessage)) = Inl e"
      and "status e = Some s" and "100 \<le> s" and "s \<le> 599"
      and "s \<noteq> 429" and "s \<noteq> 529" and "\<not> (500 \<le> s \<and> s \<le> 599)"
  shows "callClaude backend systemPrompt userMessage traceId w =
           (Inl (Throw_AgentError
                   \<lparr>name = ''AgentError'', message = ''Claude API call failed after retries'',
                    cause = Some e, statusCode = Code s\<rparr>),
            w\<lparr>now := now w + took (backend (calls w) (create_params w systemPrompt userMessage)),
              calls := calls w + 1\<rparr>)"
proof -
  have "\<not> (truthy_status e \<and> isRetryableError e)"
    using assms by (simp add: isRetryableError_def)
  then have "attempts backend (create_params w systemPrompt userMessage) (now w) 1 None w =
           (Fell_through (Some e),
            w\<lparr>now := now w + took (backend (calls w) (create_params w systemPrompt userMessage)),
              calls := calls w + 1\<rparr>)"
    using assms(1) by (intro attempts_gives_up) (simp_all add: MAX_RETRIES_def)
  then show ?thesis
    using assms by (simp add: callClaude_def AgentError_def)
qed

theorem callClaude_non_retryable_fails_at_once_witness:
  "callClaude backend_401 ''system'' ''user'' ''trace-err'' world0 =
           (Inl (Throw_AgentError
                   \<lparr>name = ''AgentError'', message = ''Claude API call failed after retries'',
                    cause = Some apiError, statusCode = Code 401\<rparr>),
            \<lparr>now = 50, calls = 1, slept = [], env_ANTHROPIC_MODEL = None\<rparr>)"
  using callClaude_non_retryable_fails_at_once
          [of backend_401 world0 "''system''" "''user''" apiError 401 "''trace-err''"]
  by (simp add: backend_401_def apiError_def world0_def)

text \<open>
  C3, as the claim states it, fails. The first attempt of three exceeds the per-call
  timeout; the error is not classified as retryable, the gateway does not sleep and does
  not invoke the backend again (which would have answered), and \<open>callClaude\<close> throws.
\<close>

theorem callClaude_timeout_not_retried:
  "\<not> isRetryableError timeoutError \<and>
   outcome (backend_timeout_then_ok 1 (create_params world0 ''system'' ''user''))
     = Inr CLAUDE_SUCCESS_RESPONSE \<and>
   callClaude backend_timeout_then_ok ''system'' ''user'' ''trace'' world0 =
     (Inl (Throw_AgentError
              \<lparr>name = ''AgentError'', message = ''Claude API call failed after retries'',
               cause = Some timeoutError, statusCode = Null\<rparr>),
      \<lparr>now = 30000, calls = 1, slept = [], env_ANTHROPIC_MODEL = None\<rparr>)"
  by (simp add: callClaude_def attempts.simps MAX_RETRIES_def messages_create_def world0_def
       backend_timeout_then_ok_def timeoutError_def truthy_status_def isRetryableError_def
       AgentError_def Let_def)

text \<open>
  C3, amended. An attempt that fails by timeout, with an error that carries no status (as
  the client's timeout error) or the status 408, is classified as not retryable: whatever
  the attempt number, the loop is left at once with that error, after this one invocation
  and without backoff; when it is the first attempt, \<open>callClaude\<close> throws the
  \<open>AgentError\<close> caused by it.
\<close>

theorem timeout_leaves_retry_loop:
  assumes "attempt \<le> MAX_RETRIES"
      and "outcome (backend (calls w) req) = Inl e"
      and "status e = None \<or> status e = Some 408"
  shows "\<not> isRetryableError e
       \<and> attempts backend req startTime attempt lastError w =
           (Fell_through (Some e), w\<lparr>now := now w + took (backend (calls w) req), calls := calls w + 1\<rparr>)
       \<and> (req = create_params w systemPrompt userMessage \<longrightarrow>
            callClaude backend systemPrompt userMessage traceId w =
              (Inl (Throw_AgentError (AgentError ''Claude API call failed after retries'' (Some e))),
               w\<lparr>now := now w + took (backend (calls w) req), calls := calls w + 1\<rparr>))"
proof -
  let ?w1 = "w\<lparr>now := now w + took (backend (calls w) req), calls := calls w + 1\<rparr>"
  have nr: "\<not> isRetryableError e"
    using assms(3) by (auto simp add: isRetryableError_def)
  have ex: "attempts backend req st k l w = (Fell_through (Some e), ?w1)"
    if "k \<le> MAX_RETRIES" for k st l
    using nr assms(2) that by (intro attempts_gives_up) simp_all
  have "callClaude backend systemPrompt userMessage traceId w =
          (Inl (Throw_AgentError (AgentError ''Claude API call failed after retries'' (Some e))), ?w1)"
    if "req = create_params w systemPrompt userMessage"
    using ex [of 1 "now w" None] that by (simp add: callClaude_def MAX_RETRIES_def)
  with nr ex [OF assms(1)] show ?thesis by blast
qed

theorem timeout_leaves_retry_loop_witness:
  "(2::nat) \<le> MAX_RETRIES
   \<and> status timeoutError = None
   \<and> \<not> isRetryableError timeoutError
   \<and> attempts backend_timeout_then_ok (create_params world0 ''system'' ''user'') 0 2 None world0 =
       (Fell_through (Some timeoutError),
        \<lparr>now = 30000, calls = 1, slept = [], env_ANTHROPIC_MODEL = None\<rparr>)
   \<and> callClaude backend_timeout_then_ok ''system'' ''user'' ''trace'' world0 =
       (Inl (Throw_AgentError (AgentError ''Claude API call failed after retries'' (Some timeoutError))),
        \<lparr>now = 30000, calls = 1, slept = [], env_ANTHROPIC_MODEL = None\<rparr>)"
  using timeout_leaves_retry_loop
          [where attempt = 2 and backend = backend_timeout_then_ok and w = world0
             and req = "create_params world0 ''system'' ''user''" and e = timeoutError
             and systemPrompt = "''system''" and userMessage = "''user''" and startTime = 0
             and lastError = None and traceId = "''trace''"]
  by (simp add: MAX_RETRIES_def backend_timeout_then_ok_def timeoutError_def world0_def)

text \<open>
  C6, as the claim states it, fails. The third attempt succeeds and takes 200 ms, yet the
  latency returned is 3400 ms: the two failed attempts (100 ms each) and the two backoff
  waits (1000 ms and 2000 ms) are counted.
\<close>

theorem latency_counts_failed_attempts_and_backoff:
  "callClaude backend_429_429_ok ''system'' ''user'' ''trace-retry'' world0 =
     (Inr \<lparr>result_text = ''To authenticate, use Bearer token in the Authorization header.'',
           model = ''claude-sonnet-4-5-20250929'',
           tokens = \<lparr>of_input = 250, of_output = 75\<rparr>, cost_usd = 0.001875, latency_ms = 3400\<rparr>,
      \<lparr>now = 3400, calls = 3, slept = [1000, 2000], env_ANTHROPIC_MODEL = None\<rparr>)
   \<and> backend_429_429_ok 2 (create_params world0 ''system'' ''user'') =
       \<lparr>took = 200, outcome = Inr CLAUDE_SUCCESS_RESPONSE\<rparr>"
  by (simp add: callClaude_def attempts.simps MAX_RETRIES_def messages_create_def world0_def
       backend_429_429_ok_def rateLimitError_def truthy_status_def isRetryableError_def sleep_def
       CLAUDE_SUCCESS_RESPONSE_def COST_PER_TOKEN_def Let_def)

text \<open>
  C6, amended. The latency of a successful call is the time elapsed from the entry of
  \<open>callClaude\<close> to the arrival of the successful response, whatever happened in between;
  it is the duration of the successful attempt when that attempt is the first.
\<close>

theorem latency_is_elapsed_since_entry:
  assumes "callClaude backend systemPrompt userMessage traceId w = (Inr r, w')"
  shows "latency_ms r = now w' - now w
       \<and> (\<forall>resp. outcome (backend (calls w) (create_params w systemPrompt userMessage)) = Inr resp
             \<longrightarrow> latency_ms r = took (backend (calls w) (create_params w systemPrompt userMessage)))"
proof -
  let ?req = "create_params w systemPrompt userMessage"
  have ret: "attempts backend ?req (now w) 1 None w = (Returned r, w')"
    using assms by (simp add: callClaude_returns_iff)
  then have l: "latency_ms r = now w' - now w"
    using attempts_Returned by blast
  have "latency_ms r = took (backend (calls w) ?req)"
    if "outcome (backend (calls w) ?req) = Inr resp" for resp
    using attempts_returns [of 1 backend w ?req resp "now w" None] that ret
    by (auto simp add: MAX_RETRIES_def)
  with l show ?thesis by blast
qed

theorem latency_is_elapsed_since_entry_witness:
  "callClaude backend_million ''system'' ''user'' ''trace-cost'' world0 =
     (Inr \<lparr>result_text = ''To authenticate, use Bearer token in the Authorization header.'',
           model = ''claude-sonnet-4-5-20250929'',
           tokens = \<lparr>of_input = 1000000, of_output = 1000000\<rparr>, cost_usd = 18, latency_ms = 200\<rparr>,
      \<lparr>now = 200, calls = 1, slept = [], env_ANTHROPIC_MODEL = None\<rparr>)
   \<and> (200::nat) = now \<lparr>now = 200, calls = 1, slept = [], env_ANTHROPIC_MODEL = None\<rparr> - now world0
   \<and> outcome (backend_million (calls world0) (create_params world0 ''system'' ''user''))
       = Inr (CLAUDE_SUCCESS_RESPONSE\<lparr>input_tokens := 1000000, output_tokens := 1000000\<rparr>)
   \<and> 200 = took (backend_million (calls world0) (create_params world0 ''system'' ''user''))"
proof -
  have h: "callClaude backend_million ''system'' ''user'' ''trace-cost'' world0 =
     (Inr \<lparr>result_text = ''To authenticate, use Bearer token in the Authorization header.'',
           model = ''claude-sonnet-4-5-20250929'',
           tokens = \<lparr>of_input = 1000000, of_output = 1000000\<rparr>, cost_usd = 18, latency_ms = 200\<rparr>,
      \<lparr>now = 200, calls = 1, slept = [], env_ANTHROPIC_MODEL = None\<rparr>)"
    by (simp add: callClaude_def attempts.simps MAX_RETRIES_def messages_create_def world0_def
          backend_million_def CLAUDE_SUCCESS_RESPONSE_def COST_PER_TOKEN_def Let_def)
  show ?thesis
    using latency_is_elapsed_since_entry [OF h] h
    by (simp add: backend_million_def world0_def)
qed

text \<open>
  C7. The cost of a successful call is the number of input tokens reported by the
  response that succeeded times 3 / 1000000 plus its number of output tokens times
  15 / 1000000, a linear function of the two counts; at a million tokens each it is 18.
  (The source evaluates the same expression in binary64 arithmetic; the identity is over
  the reals.)
\<close>

theorem cost_usd_is_linear_in_tokens:
  assumes "callClaude backend systemPrompt userMessage traceId w = (Inr r, w')"
  shows "(\<exists>resp. outcome (backend (calls w' - 1) (create_params w systemPrompt userMessage)) = Inr resp
            \<and> tokens r = \<lparr>of_input = input_tokens resp, of_output = output_tokens resp\<rparr>)
       \<and> cost_usd r = real (of_input (tokens r)) * (3 / 1000000)
                     + real (of_output (tokens r)) * (15 / 1000000)
       \<and> (of_input (tokens r) = 1000000 \<and> of_output (tokens r) = 1000000 \<longrightarrow> cost_usd r = 18)"
proof -
  let ?req = "create_params w systemPrompt userMessage"
  have ret: "attempts backend ?req (now w) 1 None w = (Returned r, w')"
    using assms by (simp add: callClaude_returns_iff)
  note R = attempts_Returned [OF ret]
  from R have c: "cost_usd r = real (of_input (tokens r)) * (3 / 1000000)
                     + real (of_output (tokens r)) * (15 / 1000000)"
    by (simp add: COST_PER_TOKEN_def)
  from R have t: "\<exists>resp. outcome (backend (calls w' - 1) ?req) = Inr resp
            \<and> tokens r = \<lparr>of_input = input_tokens resp, of_output = output_tokens resp\<rparr>"
    by blast
  from c have "of_input (tokens r) = 1000000 \<and> of_output (tokens r) = 1000000 \<longrightarrow> cost_usd r = 18"
    by simp
  with c t show ?thesis by blast
qed

theorem cost_usd_is_linear_in_tokens_witness:
  "fst (callClaude backend_million ''system'' ''user'' ''trace-cost'' world0) =
     Inr \<lparr>result_text = ''To authenticate, use Bearer token in the Authorization header.'',
          model = ''claude-sonnet-4-5-20250929'',
          tokens = \<lparr>of_input = 1000000, of_output = 1000000\<rparr>, cost_usd = 18, latency_ms = 200\<rparr>
   \<and> (18::real) = real 1000000 * (3 / 1000000) + real 1000000 * (15 / 1000000)"
proof -
  have h: "callClaude backend_million ''system'' ''user'' ''trace-cost'' world0 =
     (Inr \<lparr>result_text = ''To authenticate, use Bearer token in the Authorization header.'',
           model = ''claude-sonnet-4-5-20250929'',
           tokens = \<lparr>of_input = 1000000, of_output = 1000000\<rparr>,
           cost_usd = real 1000000 * of_input COST_PER_TOKEN + real 1000000 * of_output COST_PER_TOKEN,
           latency_ms = 200\<rparr>,
      \<lparr>now = 200, calls = 1, slept = [], env_ANTHROPIC_MODEL = None\<rparr>)"
    by (simp add: callClaude_def attempts.simps MAX_RETRIES_def messages_create_def world0_def
          backend_million_def CLAUDE_SUCCESS_RESPONSE_def Let_def)
  show ?thesis
    using cost_usd_is_linear_in_tokens [OF h] h by simp
qed

section \<open>Scoring\<close>

lemma score_terms_closed_form:
  assumes "\<forall>t\<in>set ts. rx t = Inr (m t)"
  shows "score_terms rx chunk acc ts =
           Inr (acc + (\<Sum>t\<leftarrow>ts. m t (toLowerCase (title chunk)) * 3 + m t (chunkText chunk)))"
  using assms by (induction ts arbitrary: acc) (simp_all add: Let_def)

lemma score_terms_throws:
  assumes "t \<in> set ts" and "rx t = Inl e"
  shows "\<exists>e'. score_terms rx chunk acc ts = Inl e'"
  using assms by (induction ts arbitrary: acc) (auto simp add: Let_def split: sum.splits)

lemma scoreChunk_closed_form:
  assumes "\<forall>t\<in>set (queryTerms query). \<not> isl (rx t)"
  shows "scoreChunk rx query c =
           Inr (\<Sum>t\<leftarrow>queryTerms query.
                  projr (rx t) (toLowerCase (title c)) * 3 + projr (rx t) (chunkText c))"
proof -
  from assms have "\<forall>t\<in>set (queryTerms query). rx t = Inr (projr (rx t))"
    by simp
  from score_terms_closed_form [OF this, of c 0] show ?thesis
    unfolding scoreChunk_def by simp
qed

lemma scoreChunk_score_value:
  assumes "\<forall>t\<in>set (queryTerms query). \<exists>re. rx t = Inr re"
  shows "scoreChunk rx query c = Inr (score_value rx query c)"
proof -
  from assms have "\<forall>t\<in>set (queryTerms query). \<not> isl (rx t)"
    by auto
  from scoreChunk_closed_form [OF this] show ?thesis
    unfolding score_value_def by simp
qed

text \<open>
  C5. \<open>scoreChunk\<close> does not count the occurrences of a term: it hands the term to the
  runtime as the source of a pattern and counts the matches of that pattern. Two
  questions show it on the chunk of the section \<^verbatim>\<open>Authentication\<close>. The question
  \<^verbatim>\<open>Is C++ ok\<close> has one term longer than two characters, \<^verbatim>\<open>c++\<close>, which occurs nowhere
  in the chunk; the score is not 0, \<open>scoreChunk\<close> throws a \<^verbatim>\<open>SyntaxError\<close> and there is
  no score. The question \<^verbatim>\<open>How do I authenticate?\<close> has the terms \<^verbatim>\<open>how\<close> and
  \<^verbatim>\<open>authenticate?\<close>, neither of which occurs in the title or in the text of the chunk;
  the score is not 0 but 5, the pattern \<^verbatim>\<open>authenticate?\<close> having one match in the title
  and two in the text (on \<^verbatim>\<open>authenticat\<close>).
\<close>

theorem scoreChunk_counts_pattern_matches:
  "queryTerms ''Is C++ ok'' = [''c++'']
   \<and> \<not> sublist ''c++'' (toLowerCase (title authentication_chunk))
   \<and> \<not> sublist ''c++'' (chunkText authentication_chunk)
   \<and> scoreChunk RegExp_g ''Is C++ ok'' authentication_chunk = Inl SyntaxError
   \<and> queryTerms ''How do I authenticate?'' = [''how'', ''authenticate?'']
   \<and> \<not> sublist ''how'' (chunkText authentication_chunk)
   \<and> \<not> sublist ''authenticate?'' (toLowerCase (title authentication_chunk))
   \<and> \<not> sublist ''authenticate?'' (chunkText authentication_chunk)
   \<and> projr (RegExp_g ''authenticate?'') (toLowerCase (title authentication_chunk)) = 1
   \<and> projr (RegExp_g ''authenticate?'') (chunkText authentication_chunk) = 2
   \<and> scoreChunk RegExp_g ''How do I authenticate?'' authentication_chunk = Inr 5"
  by code_simp
section \<open>The store\<close>

lemma upt_from_Suc: "[n ..< n + Suc k] = n # [Suc n ..< Suc n + k]"
  by (simp add: upt_conv_Cons)

lemma map_nth_fresh:
  "map (\<lambda>r. (objs @ news) ! r) [length objs ..< length objs + length news] = news"
  by (simp add: map_upt_eqI nth_append)

lemma map_insort_key:
  "map f (insort_key (\<lambda>x. g (f x)) x xs) = insort_key g (f x) (map f xs)"
  by (induction xs) simp_all

lemma map_sort_key:
  "map f (sort_key (\<lambda>x. g (f x)) xs) = sort_key g (map f xs)"
  by (induction xs) (simp_all add: map_insort_key)

lemma allocate_chunks_spec:
  "allocate_chunks cs st =
     ([length (objects st) ..< length (objects st) + length cs], st\<lparr>objects := objects st @ cs\<rparr>)"
proof (induction cs arbitrary: st)
  case Nil
  then show ?case by simp
next
  case (Cons c cs)
  show ?case
    using upt_from_Suc [of "length (objects st)" "length cs"]
    by (simp add: new_object_def Cons.IH)
qed

text \<open>The traversal of \<open>map\<close> only allocates objects, whether it throws or not.\<close>

lemma map_scored_frame:
  "map_scored rx query rs st = (res, st') \<Longrightarrow>
     prefix (objects st) (objects st') \<and> arrays st' = arrays st \<and> chunksCache st' = chunksCache st"
proof (induction rs arbitrary: st res st')
  case Nil
  then show ?case by simp
next
  case (Cons r rs)
  show ?case
  proof (cases "scoreChunk rx query (objects st ! r)")
    case (Inl e)
    with Cons.prems show ?thesis by (simp add: Let_def)
  next
    case (Inr s)
    let ?st1 = "st\<lparr>objects := objects st @ [(objects st ! r)\<lparr>score := Some s\<rparr>]\<rparr>"
    obtain res1 st2 where m: "map_scored rx query rs ?st1 = (res1, st2)"
      by (cases "map_scored rx query rs ?st1")
    from Cons.prems Inr m have "st' = st2"
      by (auto simp add: Let_def new_object_def split: sum.splits)
    with Cons.IH [OF m] show ?thesis
      by (auto dest: append_prefixD)
  qed
qed

text \<open>When no term throws, it allocates a scored copy of each element, in order.\<close>

lemma map_scored_spec:
  assumes "\<forall>t\<in>set (queryTerms query). \<exists>re. rx t = Inr re"
      and "list_all (\<lambda>r. r < length (objects st)) rs"
  shows "map_scored rx query rs st =
           (Inr [length (objects st) ..< length (objects st) + length rs],
            st\<lparr>objects := objects st @
                  map (\<lambda>r. (objects st ! r)\<lparr>score := Some (score_value rx query (objects st ! r))\<rparr>) rs\<rparr>)"
  using assms(2)
proof (induction rs arbitrary: st)
  case Nil
  then show ?case by simp
next
  case (Cons r rs)
  let ?c = "(objects st ! r)\<lparr>score := Some (score_value rx query (objects st ! r))\<rparr>"
  let ?st1 = "st\<lparr>objects := objects st @ [?c]\<rparr>"
  from Cons.prems have r: "r < length (objects st)" and rs: "list_all (\<lambda>r. r < length (objects st)) rs"
    by simp_all
  from rs have rs1: "list_all (\<lambda>r. r < length (objects ?st1)) rs"
    by (auto simp add: list_all_iff)
  have same: "map (\<lambda>r. (objects ?st1 ! r)\<lparr>score := Some (score_value rx query (objects ?st1 ! r))\<rparr>) rs
            = map (\<lambda>r. (objects st ! r)\<lparr>score := Some (score_value rx query (objects st ! r))\<rparr>) rs"
    using rs by (simp add: list_all_iff nth_append)
  show ?case
    using Cons.IH [OF rs1] same upt_from_Suc [of "length (objects st)" "length rs"]
    by (simp add: Let_def scoreChunk_score_value [OF assms(1)] new_object_def)
qed

text \<open>
  Reading the sorted, filtered and truncated array of new addresses gives the sorted,
  filtered and truncated list of the new objects.
\<close>

lemma ranking_elements:
  "map (\<lambda>r. (objs @ news) ! r)
           (take k (sort_key (\<lambda>r. - int (score_of ((objs @ news) ! r)))
                      (filter (\<lambda>r. 0 < score_of ((objs @ news) ! r))
                         [length objs ..< length objs + length news])))
         = take k (sort_key (\<lambda>x. - int (score_of x)) (filter (\<lambda>x. 0 < score_of x) news))"
proof -
  let ?get = "\<lambda>r. (objs @ news) ! r"
  let ?refs = "[length objs ..< length objs + length news]"
  let ?fl = "filter (\<lambda>r. 0 < score_of (?get r)) ?refs"
  have "map ?get ?fl = filter (\<lambda>x. 0 < score_of x) (map ?get ?refs)"
    by (simp add: filter_map comp_def)
  also have "map ?get ?refs = news"
    by (rule map_nth_fresh)
  finally have f: "map ?get ?fl = filter (\<lambda>x. 0 < score_of x) news" .
  have "map ?get (take k (sort_key (\<lambda>r. - int (score_of (?get r))) ?fl))
          = take k (map ?get (sort_key (\<lambda>r. - int (score_of (?get r))) ?fl))"
    by (simp only: take_map)
  also have "map ?get (sort_key (\<lambda>r. - int (score_of (?get r))) ?fl)
          = sort_key (\<lambda>x. - int (score_of x)) (map ?get ?fl)"
    by (rule map_sort_key)
  finally show ?thesis
    by (simp only: f)
qed

subsection \<open>loadKnowledge\<close>

lemma loadKnowledge_cached:
  "chunksCache st = Some a \<Longrightarrow> loadKnowledge knowledgeDir st = (a, st)"
  by (simp add: loadKnowledge_def)

lemma loadKnowledge_fresh:
  assumes "chunksCache st = None"
  shows "loadKnowledge knowledgeDir st =
           (length (arrays st),
            st\<lparr>objects := objects st @ (case knowledgeDir of None \<Rightarrow> [] | Some entries \<Rightarrow> loaded_chunks entries),
               arrays := arrays st @
                 [[length (objects st) ..< length (objects st)
                     + length (case knowledgeDir of None \<Rightarrow> [] | Some entries \<Rightarrow> loaded_chunks entries)]],
               chunksCache := Some (length (arrays st))\<rparr>)"
  using assms
  by (cases knowledgeDir) (simp_all add: loadKnowledge_def new_array_def allocate_chunks_spec)

lemma loadKnowledge_loaded:
  assumes "wf_store st" and "loadKnowledge knowledgeDir st = (a, st1)"
  shows "chunksCache st1 = Some a \<and> wf_store st1
       \<and> (chunksCache st = None \<longrightarrow>
            cached_chunks st1 = (case knowledgeDir of None \<Rightarrow> [] | Some entries \<Rightarrow> loaded_chunks entries))
       \<and> (chunksCache st \<noteq> None \<longrightarrow> st1 = st)"
proof (cases "chunksCache st")
  case None
  let ?cs = "case knowledgeDir of None \<Rightarrow> [] | Some entries \<Rightarrow> loaded_chunks entries"
  from assms(2) loadKnowledge_fresh [OF None, of knowledgeDir]
  have a: "a = length (arrays st)"
    and st1: "st1 = st\<lparr>objects := objects st @ ?cs,
               arrays := arrays st @ [[length (objects st) ..< length (objects st) + length ?cs]],
               chunksCache := Some (length (arrays st))\<rparr>"
    by auto
  have "cached_chunks st1 = ?cs"
    using map_nth_fresh [of "objects st" ?cs]
    by (simp add: st1 cached_chunks_def elements_def)
  moreover have "wf_store st1"
    by (simp add: st1 wf_store_def list_all_iff)
  ultimately show ?thesis
    using None by (simp add: st1 a)
next
  case (Some c)
  with assms loadKnowledge_cached [OF Some, of knowledgeDir] show ?thesis
    by simp
qed

lemma loadKnowledge_idempotent:
  "loadKnowledge knowledgeDir (snd (loadKnowledge knowledgeDir st)) = loadKnowledge knowledgeDir st"
proof (cases "chunksCache st")
  case None
  show ?thesis
    by (simp add: loadKnowledge_fresh [OF None] loadKnowledge_cached)
next
  case (Some c)
  then show ?thesis
    by (simp add: loadKnowledge_cached)
qed

text \<open>No chunk that \<open>parseMarkdownChunks\<close> builds has a score.\<close>

declare split_sections.simps [simp del]

lemma section_chunk_no_score:
  "c \<in> set (section_chunk filename sec) \<Longrightarrow> score c = None"
  by (simp add: section_chunk_def Let_def split: if_splits)

lemma parseMarkdownChunks_no_score:
  "c \<in> set (parseMarkdownChunks text filename) \<Longrightarrow> score c = None"
  by (auto simp add: parseMarkdownChunks_def Let_def dest: section_chunk_no_score split: if_splits)

lemma loaded_chunks_no_score:
  "list_all (\<lambda>c. score c = None) (loaded_chunks entries)"
  by (auto simp add: loaded_chunks_def list_all_iff dest: parseMarkdownChunks_no_score)

subsection \<open>What a query leaves in the store\<close>

text \<open>
  A store that only grew: its old objects and arrays are where they were and as they
  were, and the cache variable is the same. The cached chunks are then the same.
\<close>

lemma grown_store:
  assumes "prefix (objects st) (objects st')" and "prefix (arrays st) (arrays st')"
      and "chunksCache st' = chunksCache st" and "wf_store st"
  shows "wf_store st' \<and> cached_chunks st' = cached_chunks st"
proof (cases "chunksCache st")
  case None
  with assms(3) show ?thesis
    by (simp add: wf_store_def cached_chunks_def)
next
  case (Some c)
  from assms(1) obtain os where os: "objects st' = objects st @ os"
    by (auto simp add: prefix_def)
  from assms(2) obtain as where as: "arrays st' = arrays st @ as"
    by (auto simp add: prefix_def)
  from assms(4) Some have c: "c < length (arrays st)"
    and rs: "\<forall>r\<in>set (arrays st ! c). r < length (objects st)"
    by (simp_all add: wf_store_def list_all_iff)
  from c as have same: "arrays st' ! c = arrays st ! c"
    by (simp add: nth_append)
  have "wf_store st'"
    using Some assms(3) c rs same os as by (auto simp add: wf_store_def list_all_iff)
  moreover have "cached_chunks st' = cached_chunks st"
    using Some assms(3) same rs os by (simp add: cached_chunks_def elements_def nth_append)
  ultimately show ?thesis by simp
qed

lemma findRelevantChunks_loads_first:
  "findRelevantChunks rx knowledgeDir query topK (snd (loadKnowledge knowledgeDir st))
     = findRelevantChunks rx knowledgeDir query topK st"
proof -
  obtain a st1 where l: "loadKnowledge knowledgeDir st = (a, st1)"
    by (cases "loadKnowledge knowledgeDir st")
  with loadKnowledge_idempotent [of knowledgeDir st]
  have "loadKnowledge knowledgeDir st1 = (a, st1)"
    by simp
  with l show ?thesis
    by (simp add: findRelevantChunks_def)
qed

text \<open>
  Whether it returns or throws, a query on a loaded store writes only to cells it
  allocated itself: the store only grows.
\<close>

lemma findRelevantChunks_frame:
  assumes cache: "chunksCache st = Some c"
      and call: "findRelevantChunks rx knowledgeDir query topK st = (res, st')"
  shows "prefix (objects st) (objects st') \<and> prefix (arrays st) (arrays st')
       \<and> chunksCache st' = chunksCache st"
proof -
  obtain res2 st2 where m: "map_scored rx query (arrays st ! c) st = (res2, st2)"
    by (cases "map_scored rx query (arrays st ! c) st")
  note f = map_scored_frame [OF m]
  show ?thesis
  proof (cases res2)
    case (Inl e)
    with call m f show ?thesis
      by (simp add: findRelevantChunks_def loadKnowledge_cached [OF cache])
  next
    case (Inr refs)
    with call m have "objects st' = objects st2"
      and "chunksCache st' = chunksCache st2"
      and "prefix (arrays st2) (arrays st')"
      by (auto simp add: findRelevantChunks_def loadKnowledge_cached [OF cache] new_array_def
            sort_in_place_def nth_append Let_def)
    with f show ?thesis
      by simp
  qed
qed

lemma queries_frame:
  assumes "chunksCache st = Some c" and "wf_store st"
  shows "prefix (objects st) (objects (queries rx knowledgeDir qs st))
       \<and> prefix (arrays st) (arrays (queries rx knowledgeDir qs st))
       \<and> chunksCache (queries rx knowledgeDir qs st) = Some c
       \<and> wf_store (queries rx knowledgeDir qs st)"
  using assms
proof (induction qs arbitrary: st)
  case Nil
  then show ?case by simp
next
  case (Cons q qs)
  obtain query topK where q: "q = (query, topK)"
    by (cases q)
  obtain res st1 where call: "findRelevantChunks rx knowledgeDir query topK st = (res, st1)"
    by (cases "findRelevantChunks rx knowledgeDir query topK st")
  note f = findRelevantChunks_frame [OF Cons.prems(1) call]
  with Cons.prems have c1: "chunksCache st1 = Some c" and wf1: "wf_store st1"
    using grown_store [of st st1] by simp_all
  from Cons.IH [OF c1 wf1] f q call show ?case
    by (auto intro: prefix_order.trans)
qed

text \<open>
  No reference dangles in the store at module load, and none does after any operation of
  the module.
\<close>

lemma wf_store_invariant:
  "wf_store store0"
  "wf_store st \<Longrightarrow> wf_store (resetCache st)"
  "wf_store st \<Longrightarrow> wf_store (snd (loadKnowledge knowledgeDir st))"
  "wf_store st \<Longrightarrow> wf_store (snd (findRelevantChunks rx knowledgeDir query topK st))"
proof -
  show "wf_store store0"
    by (simp add: wf_store_def store0_def)
  show "wf_store (resetCache st)"
    by (simp add: wf_store_def resetCache_def)
  assume wf: "wf_store st"
  obtain c st1 where l: "loadKnowledge knowledgeDir st = (c, st1)"
    by (cases "loadKnowledge knowledgeDir st")
  from loadKnowledge_loaded [OF wf l] have cache: "chunksCache st1 = Some c" and wf1: "wf_store st1"
    by simp_all
  from wf1 l show "wf_store (snd (loadKnowledge knowledgeDir st))"
    by simp
  obtain res st' where call: "findRelevantChunks rx knowledgeDir query topK st1 = (res, st')"
    by (cases "findRelevantChunks rx knowledgeDir query topK st1")
  from findRelevantChunks_frame [OF cache call] wf1 have "wf_store st'"
    using grown_store [of st1 st'] by simp
  moreover from findRelevantChunks_loads_first [of rx knowledgeDir query topK st] l call
  have "findRelevantChunks rx knowledgeDir query topK st = (res, st')"
    by simp
  ultimately show "wf_store (snd (findRelevantChunks rx knowledgeDir query topK st))"
    by simp
qed

text \<open>The result of a query on a loaded store, when no term throws.\<close>

lemma findRelevantChunks_loaded:
  assumes valid: "\<forall>t\<in>set (queryTerms query). \<exists>re. rx t = Inr re"
      and cache: "chunksCache st = Some c"
      and wf: "wf_store st"
  shows "findRelevantChunks rx knowledgeDir query topK st =
           (Inr (length (arrays st) + 2),
            st\<lparr>objects := objects st @
                  map (\<lambda>ch. ch\<lparr>score := Some (score_value rx query ch)\<rparr>) (cached_chunks st),
               arrays := arrays st @
                  [[length (objects st) ..< length (objects st) + length (arrays st ! c)],
                   sort_key (\<lambda>r. - int (score_of ((objects st @
                        map (\<lambda>ch. ch\<lparr>score := Some (score_value rx query ch)\<rparr>) (cached_chunks st)) ! r)))
                      (filter (\<lambda>r. 0 < score_of ((objects st @
                        map (\<lambda>ch. ch\<lparr>score := Some (score_value rx query ch)\<rparr>) (cached_chunks st)) ! r))
                         [length (objects st) ..< length (objects st) + length (arrays st ! c)]),
                   take topK (sort_key (\<lambda>r. - int (score_of ((objects st @
                        map (\<lambda>ch. ch\<lparr>score := Some (score_value rx query ch)\<rparr>) (cached_chunks st)) ! r)))
                      (filter (\<lambda>r. 0 < score_of ((objects st @
                        map (\<lambda>ch. ch\<lparr>score := Some (score_value rx query ch)\<rparr>) (cached_chunks st)) ! r))
                         [length (objects st) ..< length (objects st) + length (arrays st ! c)]))]\<rparr>)"
proof -
  from wf cache have refs: "list_all (\<lambda>r. r < length (objects st)) (arrays st ! c)"
    by (simp add: wf_store_def)
  have cc: "cached_chunks st = map (\<lambda>r. objects st ! r) (arrays st ! c)"
    using cache by (simp add: cached_chunks_def elements_def)
  show ?thesis
    unfolding findRelevantChunks_def loadKnowledge_cached [OF cache]
    by (simp add: map_scored_spec [OF valid refs] new_array_def sort_in_place_def cc
          nth_append comp_def Let_def)
qed

lemma nth_append_third: "(xs @ [a, b, c]) ! Suc (Suc (length xs)) = c"
  by (simp add: nth_append)

lemma findRelevantChunks_result:
  assumes valid: "\<forall>t\<in>set (queryTerms query). \<exists>re. rx t = Inr re"
      and cache: "chunksCache st = Some c"
      and wf: "wf_store st"
  shows "\<exists>a st'. findRelevantChunks rx knowledgeDir query topK st = (Inr a, st')
           \<and> prefix (objects st) (objects st') \<and> prefix (arrays st) (arrays st')
           \<and> chunksCache st' = chunksCache st
           \<and> elements st' a =
               take topK (sort_key (\<lambda>x. - int (score_of x)) (filter (\<lambda>x. 0 < score_of x)
                  (map (\<lambda>ch. ch\<lparr>score := Some (score_value rx query ch)\<rparr>) (cached_chunks st))))"
proof -
  let ?news = "map (\<lambda>ch. ch\<lparr>score := Some (score_value rx query ch)\<rparr>) (cached_chunks st)"
  let ?objs = "objects st @ ?news"
  let ?refs = "[length (objects st) ..< length (objects st) + length ?news]"
  let ?S = "sort_key (\<lambda>r. - int (score_of (?objs ! r))) (filter (\<lambda>r. 0 < score_of (?objs ! r)) ?refs)"
  let ?st' = "st\<lparr>objects := ?objs, arrays := arrays st @ [?refs, ?S, take topK ?S]\<rparr>"
  have len: "length (arrays st ! c) = length ?news"
    using cache by (simp add: cached_chunks_def elements_def)
  have call: "findRelevantChunks rx knowledgeDir query topK st = (Inr (length (arrays st) + 2), ?st')"
    unfolding findRelevantChunks_loaded [OF valid cache wf] len ..
  have "elements ?st' (length (arrays st) + 2) = map (\<lambda>r. ?objs ! r) (take topK ?S)"
    by (simp add: elements_def nth_append_third)
  also have "\<dots> = take topK (sort_key (\<lambda>x. - int (score_of x)) (filter (\<lambda>x. 0 < score_of x) ?news))"
    by (rule ranking_elements)
  finally have "elements ?st' (length (arrays st) + 2)
      = take topK (sort_key (\<lambda>x. - int (score_of x)) (filter (\<lambda>x. 0 < score_of x) ?news))" .
  moreover have "prefix (objects st) (objects ?st')" "prefix (arrays st) (arrays ?st')"
    "chunksCache ?st' = chunksCache st"
    by simp_all
  ultimately show ?thesis
    using call by blast
qed

section \<open>Ranking\<close>

lemma prefix_filter_take: "prefix (filter Q (take k xs)) (filter Q xs)"
proof -
  have "filter Q xs = filter Q (take k xs) @ filter Q (drop k xs)"
    by (metis append_take_drop_id filter_append)
  then show ?thesis
    by (simp add: prefix_def)
qed

lemma score_of_Some: "score x = Some s \<Longrightarrow> score_of x = s"
  by (simp add: score_of_def)

text \<open>
  Among the results, the chunks of one score stand in the order they have in the list that
  was ranked.
\<close>

lemma ranking_stable:
  "prefix (filter (\<lambda>x. score x = Some s)
             (take k (sort_key (\<lambda>x. - int (score_of x)) (filter (\<lambda>x. 0 < score_of x) xs))))
          (filter (\<lambda>x. score x = Some s) xs)"
proof -
  let ?Q = "\<lambda>x. score x = Some s"
  let ?f = "\<lambda>x. - int (score_of x)"
  let ?P = "\<lambda>x. 0 < score_of x"
  have key: "filter ?Q ys = filter ?Q (filter (\<lambda>y. ?f y = - int s) ys)" for ys :: "chunk list"
    by (induction ys) (auto simp add: score_of_Some)
  have "filter ?Q (sort_key ?f (filter ?P xs)) = filter ?Q (filter (\<lambda>y. ?f y = - int s) (sort_key ?f (filter ?P xs)))"
    by (rule key)
  also have "\<dots> = filter ?Q (filter (\<lambda>y. ?f y = - int s) (filter ?P xs))"
    by (simp only: sort_key_stable)
  also have "\<dots> = filter ?Q (filter ?P xs)"
    by (rule key [symmetric])
  finally have sorted_part: "filter ?Q (sort_key ?f (filter ?P xs)) = filter ?Q (filter ?P xs)" .
  have "prefix (filter ?Q (filter ?P xs)) (filter ?Q xs)"
  proof (cases "s = 0")
    case True
    then have "filter ?Q (filter ?P xs) = []"
      by (auto simp add: filter_empty_conv score_of_Some)
    then show ?thesis by simp
  next
    case False
    then have "filter ?Q (filter ?P xs) = filter ?Q xs"
      by (induction xs) (auto simp add: score_of_Some)
    then show ?thesis by simp
  qed
  with sorted_part have "prefix (filter ?Q (sort_key ?f (filter ?P xs))) (filter ?Q xs)"
    by simp
  with prefix_filter_take [of ?Q k "sort_key ?f (filter ?P xs)"] show ?thesis
    by (rule prefix_order.trans)
qed

lemma ranking_sorted:
  "sorted_wrt (\<lambda>x y. score_of y \<le> score_of x) (take k (sort_key (\<lambda>x. - int (score_of x)) xs))"
proof -
  have "sorted (map (\<lambda>x. - int (score_of x)) (sort_key (\<lambda>x. - int (score_of x)) xs))"
    by (rule sorted_sort_key)
  then have "sorted_wrt (\<lambda>x y. score_of y \<le> score_of x) (sort_key (\<lambda>x. - int (score_of x)) xs)"
    by (simp add: sorted_map)
  then show ?thesis
    by (rule sorted_wrt_take)
qed

lemma ranking_members:
  assumes "x \<in> set (take k (sort_key (\<lambda>x. - int (score_of x)) (filter (\<lambda>x. 0 < score_of x)
             (map (\<lambda>ch. ch\<lparr>score := Some (v ch)\<rparr>) cs))))"
  shows "\<exists>ch\<in>set cs. 0 < v ch \<and> x = ch\<lparr>score := Some (v ch)\<rparr>"
proof -
  from assms have "x \<in> set (filter (\<lambda>x. 0 < score_of x) (map (\<lambda>ch. ch\<lparr>score := Some (v ch)\<rparr>) cs))"
    by (auto dest: in_set_takeD)
  then show ?thesis
    by (auto simp add: score_of_def)
qed

lemma no_match_scores_zero:
  assumes valid: "\<forall>t\<in>set (queryTerms query). \<exists>re. rx t = Inr re"
      and none: "\<forall>t\<in>set (queryTerms query). \<forall>re. rx t = Inr re \<longrightarrow>
                   re (toLowerCase (title ch)) = 0 \<and> re (chunkText ch) = 0"
  shows "score_value rx query ch = 0"
proof -
  from valid have v: "\<forall>t\<in>set (queryTerms query). \<not> isl (rx t)"
    by auto
  have "projr (rx t) (toLowerCase (title ch)) * 3 + projr (rx t) (chunkText ch) = 0"
    if "t \<in> set (queryTerms query)" for t
  proof -
    from valid that obtain re where "rx t = Inr re" by blast
    with none that show ?thesis by simp
  qed
  then have "(\<Sum>t\<leftarrow>queryTerms query.
                projr (rx t) (toLowerCase (title ch)) * 3 + projr (rx t) (chunkText ch)) = 0"
    by (simp add: sum_list_eq_0_iff)
  with scoreChunk_closed_form [OF v, of ch] show ?thesis
    by (simp add: score_value_def)
qed

text \<open>
  The ranking. When the runtime accepts every term of the query as a pattern,
  \<open>findRelevantChunks\<close> returns, whatever \<open>topK\<close> and the reachable store, and leaves
  the cached chunks as \<open>loadKnowledge\<close> gives them. The array it returns has at most
  \<open>topK\<close> elements; each is a copy of a cached chunk with the score of that chunk,
  which is positive; the elements are in the order of non-increasing score; the elements
  of one score stand in the order of the cache; the array is the first \<open>topK\<close> elements
  of the stable descending sort of the scored cached chunks of positive score; and it is
  empty when no term, as a pattern, has a match in the title or in the text of any cached
  chunk.
\<close>

lemma findRelevantChunks_ranks_cached_chunks:
  assumes valid: "\<forall>t\<in>set (queryTerms query). \<exists>re. rx t = Inr re"
      and wf: "wf_store st"
  shows "\<exists>a st'. findRelevantChunks rx knowledgeDir query topK st = (Inr a, st')
           \<and> cached_chunks st' = cached_chunks (snd (loadKnowledge knowledgeDir st))
           \<and> length (elements st' a) \<le> topK
           \<and> (\<forall>x\<in>set (elements st' a). \<exists>ch\<in>set (cached_chunks st'). \<exists>s.
                  scoreChunk rx query ch = Inr s \<and> 0 < s \<and> x = ch\<lparr>score := Some s\<rparr>)
           \<and> sorted_wrt (\<lambda>x y. score_of y \<le> score_of x) (elements st' a)
           \<and> (\<forall>s. prefix (filter (\<lambda>x. score x = Some s) (elements st' a))
                          (filter (\<lambda>x. score x = Some s)
                             (map (\<lambda>ch. ch\<lparr>score := Some (score_value rx query ch)\<rparr>) (cached_chunks st'))))
           \<and> elements st' a =
               take topK (sort_key (\<lambda>x. - int (score_of x)) (filter (\<lambda>x. 0 < score_of x)
                  (map (\<lambda>ch. ch\<lparr>score := Some (score_value rx query ch)\<rparr>) (cached_chunks st'))))
           \<and> ((\<forall>ch\<in>set (cached_chunks st'). \<forall>t\<in>set (queryTerms query). \<forall>re. rx t = Inr re \<longrightarrow>
                   re (toLowerCase (title ch)) = 0 \<and> re (chunkText ch) = 0)
                \<longrightarrow> elements st' a = [])"
proof -
  obtain c st1 where l: "loadKnowledge knowledgeDir st = (c, st1)"
    by (cases "loadKnowledge knowledgeDir st")
  from loadKnowledge_loaded [OF wf l] have cache: "chunksCache st1 = Some c" and wf1: "wf_store st1"
    by simp_all
  let ?cs = "cached_chunks st1"
  let ?v = "score_value rx query"
  let ?R = "take topK (sort_key (\<lambda>x. - int (score_of x)) (filter (\<lambda>x. 0 < score_of x)
                  (map (\<lambda>ch. ch\<lparr>score := Some (?v ch)\<rparr>) ?cs)))"
  from findRelevantChunks_result [OF valid cache wf1, of knowledgeDir topK]
  obtain a st' where call1: "findRelevantChunks rx knowledgeDir query topK st1 = (Inr a, st')"
    and grow: "prefix (objects st1) (objects st')" "prefix (arrays st1) (arrays st')"
              "chunksCache st' = chunksCache st1"
    and res: "elements st' a = ?R"
    by blast
  from findRelevantChunks_loads_first [of rx knowledgeDir query topK st] l call1
  have call: "findRelevantChunks rx knowledgeDir query topK st = (Inr a, st')"
    by simp
  from grown_store [OF grow wf1] have same: "cached_chunks st' = ?cs"
    by simp
  have len: "length ?R \<le> topK"
    by simp
  have mem: "\<forall>x\<in>set ?R. \<exists>ch\<in>set ?cs. \<exists>s. scoreChunk rx query ch = Inr s \<and> 0 < s \<and> x = ch\<lparr>score := Some s\<rparr>"
  proof
    fix x assume "x \<in> set ?R"
    from ranking_members [OF this] obtain ch where "ch \<in> set ?cs" "0 < ?v ch" "x = ch\<lparr>score := Some (?v ch)\<rparr>"
      by blast
    with scoreChunk_score_value [OF valid, of ch]
    show "\<exists>ch\<in>set ?cs. \<exists>s. scoreChunk rx query ch = Inr s \<and> 0 < s \<and> x = ch\<lparr>score := Some s\<rparr>"
      by blast
  qed
  have srt: "sorted_wrt (\<lambda>x y. score_of y \<le> score_of x) ?R"
    by (rule ranking_sorted)
  have stb: "\<forall>s. prefix (filter (\<lambda>x. score x = Some s) ?R)
                          (filter (\<lambda>x. score x = Some s) (map (\<lambda>ch. ch\<lparr>score := Some (?v ch)\<rparr>) ?cs))"
    by (intro allI ranking_stable)
  have emp: "?R = []"
    if "\<forall>ch\<in>set ?cs. \<forall>t\<in>set (queryTerms query). \<forall>re. rx t = Inr re \<longrightarrow>
                   re (toLowerCase (title ch)) = 0 \<and> re (chunkText ch) = 0"
  proof -
    from that have "\<forall>ch\<in>set ?cs. ?v ch = 0"
      using no_match_scores_zero [OF valid] by blast
    then have "filter (\<lambda>x. 0 < score_of x) (map (\<lambda>ch. ch\<lparr>score := Some (?v ch)\<rparr>) ?cs) = []"
      by (simp add: filter_empty_conv score_of_def)
    then show ?thesis by simp
  qed
  from call l same res len mem srt stb emp show ?thesis
    by (intro exI [of _ a] exI [of _ st']) simp
qed

section \<open>Queries on the example knowledge base\<close>

text \<open>
  C4. On the example knowledge base, whose cache holds three chunks, the query \<^verbatim>\<open>c++\<close>
  has one term, which occurs in the text of no cached chunk: \<open>findRelevantChunks\<close> does
  not return the empty sequence, it throws a \<^verbatim>\<open>SyntaxError\<close> and returns nothing. The
  term of the query \<^verbatim>\<open>t.k.n\<close> occurs in the text of no cached chunk either, and
  \<open>findRelevantChunks\<close> returns a chunk for it, with the score 1: the one whose text has
  the word \<^verbatim>\<open>token\<close>.
\<close>

theorem findRelevantChunks_throws_without_shared_vocabulary:
  "wf_store loaded_store
   \<and> cached_chunks loaded_store = [intro_chunk, authentication_chunk, limits_chunk]
   \<and> queryTerms ''c++'' = [''c++'']
   \<and> list_all (\<lambda>ch. \<not> sublist ''c++'' (chunkText ch)) (cached_chunks loaded_store)
   \<and> fst (findRelevantChunks RegExp_g knowledge_dir ''c++'' 3 loaded_store) = Inl SyntaxError
   \<and> queryTerms ''t.k.n'' = [''t.k.n'']
   \<and> list_all (\<lambda>ch. \<not> sublist ''t.k.n'' (chunkText ch)) (cached_chunks loaded_store)
   \<and> fst (findRelevantChunks RegExp_g knowledge_dir ''t.k.n'' 3 loaded_store) = Inr 3
   \<and> elements (snd (findRelevantChunks RegExp_g knowledge_dir ''t.k.n'' 3 loaded_store)) 3
       = [authentication_chunk\<lparr>score := Some 1\<rparr>]"
  by code_simp
lemma map_scored_throws:
  assumes "rs \<noteq> []" and "t \<in> set (queryTerms query)" and "rx t = Inl e"
  shows "isl (fst (map_scored rx query rs st))"
proof -
  from assms(1) obtain r rs' where rs: "rs = r # rs'"
    by (cases rs) simp_all
  from score_terms_throws [where rx = rx and t = t and ts = "queryTerms query"
                             and chunk = "objects st ! r" and acc = 0, OF assms(2) assms(3)]
  obtain e' where "scoreChunk rx query (objects st ! r) = Inl e'"
    by (auto simp add: scoreChunk_def)
  with rs show ?thesis
    by (simp add: Let_def)
qed

text \<open>
  C9. Each term of the query is handed to the runtime as the source of a pattern, so a
  term the runtime rejects makes \<open>findRelevantChunks\<close> throw as soon as there is a chunk
  to score. The term \<^verbatim>\<open>c++\<close> is rejected (a quantifier with nothing to repeat), so a
  question that contains it throws a \<^verbatim>\<open>SyntaxError\<close> where the claim of a returned
  sequence would have one. And a term with a metacharacter is matched as a pattern: the
  text of the introduction does not contain \<^verbatim>\<open>a.i\<close>, yet the query \<^verbatim>\<open>a.i\<close> scores it 6.
\<close>

theorem findRelevantChunks_throws_on_rejected_term:
  "(t \<in> set (queryTerms query) \<and> rx t = Inl e \<and> wf_store st
      \<and> cached_chunks (snd (loadKnowledge knowledgeDir st)) \<noteq> []
      \<longrightarrow> isl (fst (findRelevantChunks rx knowledgeDir query topK st)))
   \<and> queryTerms ''How do I use the C++ SDK'' = [''how'', ''use'', ''the'', ''c++'', ''sdk'']
   \<and> RegExp_g ''c++'' = Inl SyntaxError
   \<and> fst (findRelevantChunks RegExp_g knowledge_dir ''How do I use the C++ SDK'' 3 loaded_store)
        = Inl SyntaxError
   \<and> \<not> sublist ''a.i'' (chunkText intro_chunk)
   \<and> scoreChunk RegExp_g ''a.i'' intro_chunk = Inr 6"
proof -
  have general: "isl (fst (findRelevantChunks rx knowledgeDir query topK st))"
    if t: "t \<in> set (queryTerms query)" and e: "rx t = Inl e" and wf: "wf_store st"
      and ne: "cached_chunks (snd (loadKnowledge knowledgeDir st)) \<noteq> []"
  proof -
    obtain c st1 where l: "loadKnowledge knowledgeDir st = (c, st1)"
      by (cases "loadKnowledge knowledgeDir st")
    from loadKnowledge_loaded [OF wf l] have cache: "chunksCache st1 = Some c"
      by simp
    with ne l have "arrays st1 ! c \<noteq> []"
      by (simp add: cached_chunks_def elements_def)
    from map_scored_throws [where rx = rx and t = t and query = query and rs = "arrays st1 ! c"
                              and st = st1 and e = e, OF this t e] l
    show ?thesis
      by (auto simp add: findRelevantChunks_def split: prod.splits sum.splits)
  qed
  have "queryTerms ''How do I use the C++ SDK'' = [''how'', ''use'', ''the'', ''c++'', ''sdk'']"
    and "fst (findRelevantChunks RegExp_g knowledge_dir ''How do I use the C++ SDK'' 3 loaded_store)
        = Inl SyntaxError"
    and "\<not> sublist ''a.i'' (chunkText intro_chunk)"
    and "scoreChunk RegExp_g ''a.i'' intro_chunk = Inr 6"
    by code_simp+
  moreover have "RegExp_g ''c++'' = Inl SyntaxError"
    by (simp add: RegExp_g_def isQuantifier_def isOutsideFragment_def)
  ultimately show ?thesis
    using general by blast
qed

theorem findRelevantChunks_throws_on_rejected_term_witness:
  "''c++'' \<in> set (queryTerms ''How do I use the C++ SDK'')
   \<and> RegExp_g ''c++'' = Inl SyntaxError
   \<and> wf_store loaded_store
   \<and> cached_chunks (snd (loadKnowledge knowledge_dir loaded_store)) \<noteq> []
   \<and> isl (fst (findRelevantChunks RegExp_g knowledge_dir ''How do I use the C++ SDK'' 3 loaded_store))"
proof -
  have "wf_store loaded_store"
    and "cached_chunks (snd (loadKnowledge knowledge_dir loaded_store)) \<noteq> []"
    by code_simp+
  then show ?thesis
    using findRelevantChunks_throws_on_rejected_term
            [where t = "''c++''" and query = "''How do I use the C++ SDK''" and rx = RegExp_g
               and e = SyntaxError and st = loaded_store and knowledgeDir = knowledge_dir
               and topK = 3]
    by simp
qed

text \<open>
  C10. Start from a store whose cache is empty and let \<open>loadKnowledge\<close> fill it. After
  any sequence of queries, whether they return or throw, the cache variable holds the same
  array, the cached chunks are the chunks \<open>loadKnowledge\<close> produced, field by field, none
  of them has a score, and every object and array of the store before the queries is
  where and as it was: the queries wrote only to objects and arrays they allocated. The
  same holds when the first query does the loading.
\<close>

theorem queries_leave_cache_unchanged:
  assumes "chunksCache st0 = None"
  shows "case loadKnowledge knowledgeDir st0 of (a, st) \<Rightarrow>
           chunksCache (queries rx knowledgeDir qs st) = Some a
         \<and> cached_chunks (queries rx knowledgeDir qs st) = cached_chunks st
         \<and> cached_chunks st = (case knowledgeDir of None \<Rightarrow> [] | Some entries \<Rightarrow> loaded_chunks entries)
         \<and> list_all (\<lambda>c. score c = None) (cached_chunks (queries rx knowledgeDir qs st))
         \<and> prefix (objects st) (objects (queries rx knowledgeDir qs st))
         \<and> prefix (arrays st) (arrays (queries rx knowledgeDir qs st))
         \<and> (qs \<noteq> [] \<longrightarrow> queries rx knowledgeDir qs st0 = queries rx knowledgeDir qs st)"
proof -
  obtain a st where l: "loadKnowledge knowledgeDir st0 = (a, st)"
    by (cases "loadKnowledge knowledgeDir st0")
  from assms have wf0: "wf_store st0"
    by (simp add: wf_store_def)
  let ?cs = "case knowledgeDir of None \<Rightarrow> [] | Some entries \<Rightarrow> loaded_chunks entries"
  from loadKnowledge_loaded [OF wf0 l] assms
  have cache: "chunksCache st = Some a" and wf: "wf_store st" and cs: "cached_chunks st = ?cs"
    by simp_all
  let ?st' = "queries rx knowledgeDir qs st"
  from queries_frame [OF cache wf, of rx knowledgeDir qs]
  have grow: "prefix (objects st) (objects ?st')" "prefix (arrays st) (arrays ?st')"
    and cache': "chunksCache ?st' = Some a"
    by simp_all
  from grown_store [OF grow _ wf] cache cache' have same: "cached_chunks ?st' = cached_chunks st"
    by simp
  have "list_all (\<lambda>c. score c = None) ?cs"
    using loaded_chunks_no_score by (cases knowledgeDir) simp_all
  with same cs have ns: "list_all (\<lambda>c. score c = None) (cached_chunks ?st')"
    by simp
  have first: "queries rx knowledgeDir qs st0 = ?st'" if "qs \<noteq> []"
  proof -
    from that obtain query topK rest where qs: "qs = (query, topK) # rest"
      by (cases qs) auto
    from findRelevantChunks_loads_first [of rx knowledgeDir query topK st0] l
    have "findRelevantChunks rx knowledgeDir query topK st0 = findRelevantChunks rx knowledgeDir query topK st"
      by simp
    with qs show ?thesis by simp
  qed
  from cache' same cs ns grow first show ?thesis
    by (simp add: l)
qed

theorem queries_leave_cache_unchanged_witness:
  "chunksCache store0 = None
   \<and> loadKnowledge knowledge_dir store0 = (0, loaded_store)
   \<and> chunksCache (queries RegExp_g knowledge_dir [(''authentication'', 2), (''c++'', 3)] loaded_store) = Some 0
   \<and> cached_chunks (queries RegExp_g knowledge_dir [(''authentication'', 2), (''c++'', 3)] loaded_store)
       = [intro_chunk, authentication_chunk, limits_chunk]
   \<and> queries RegExp_g knowledge_dir [(''authentication'', 2), (''c++'', 3)] store0
       = queries RegExp_g knowledge_dir [(''authentication'', 2), (''c++'', 3)] loaded_store
   \<and> length (objects (queries RegExp_g knowledge_dir [(''authentication'', 2), (''c++'', 3)] loaded_store)) = 6"
proof -
  have c0: "chunksCache store0 = None"
    by (simp add: store0_def)
  have l: "loadKnowledge knowledge_dir store0 = (0, loaded_store)"
    by code_simp
  have cc: "cached_chunks loaded_store = [intro_chunk, authentication_chunk, limits_chunk]"
    by code_simp
  have n: "length (objects (queries RegExp_g knowledge_dir [(''authentication'', 2), (''c++'', 3)] loaded_store)) = 6"
    by code_simp
  show ?thesis
    using queries_leave_cache_unchanged
            [OF c0, where knowledgeDir = knowledge_dir and rx = RegExp_g
               and qs = "[(''authentication'', 2), (''c++'', 3)]"]
    by (simp add: l c0 cc n del: queries.simps)
qed

section \<open>The orchestrator\<close>

text \<open>The loop is never left without an error caught: \<open>callClaude\<close> throws nothing but \<open>AgentError\<close>.\<close>

lemma attempts_Fell_through:
  assumes "attempts backend req startTime attempt lastError w = (Fell_through None, w')"
  shows "lastError = None \<and> \<not> attempt \<le> MAX_RETRIES"
  using assms
proof (induction backend req startTime attempt lastError w rule: attempts.induct)
  case (1 backend req startTime attempt lastError w)
  show ?case
  proof (cases "attempt \<le> MAX_RETRIES")
    case False
    with "1.prems" show ?thesis
      by (subst (asm) attempts.simps) simp
  next
    case le: True
    show ?thesis
    proof (cases "outcome (backend (calls w) req)")
      case (Inr resp)
      with "1.prems" le show ?thesis
        by (subst (asm) attempts.simps) (simp add: messages_create_def Let_def)
    next
      case (Inl e)
      let ?w1 = "w\<lparr>now := now w + took (backend (calls w) req), calls := calls w + 1\<rparr>"
      let ?d = "min (1000 * 2 ^ (attempt - 1)) 10000"
      have mc: "messages_create backend req w = (Inl e, ?w1)"
        using Inl by (simp add: messages_create_def Let_def)
      from "1.prems" Inl le
      have go: "\<not> (\<not> (truthy_status e \<and> isRetryableError e) \<or> attempt = MAX_RETRIES)"
        and rec: "attempts backend req startTime (attempt + 1) (Some e) (sleep ?d ?w1) = (Fell_through None, w')"
        by (subst (asm) attempts.simps; simp add: messages_create_def Let_def split: if_splits)+
      from "1.IH" [OF le mc [symmetric] refl refl _ refl rec] go show ?thesis
        by simp
    qed
  qed
qed

lemma callClaude_throws_AgentError:
  assumes "callClaude backend systemPrompt userMessage traceId w = (Inl thrown, w')"
  shows "\<exists>lastError. thrown = Throw_AgentError (AgentError ''Claude API call failed after retries'' (Some lastError))"
proof -
  obtain ex w1 where a: "attempts backend (create_params w systemPrompt userMessage) (now w) 1 None w = (ex, w1)"
    by (cases "attempts backend (create_params w systemPrompt userMessage) (now w) 1 None w")
  show ?thesis
  proof (cases ex)
    case (Returned r)
    with a assms show ?thesis by (simp add: callClaude_def)
  next
    case (Fell_through last)
    show ?thesis
    proof (cases last)
      case None
      with a Fell_through
      have "attempts backend (create_params w systemPrompt userMessage) (now w) 1 None w
              = (Fell_through None, w1)"
        by simp
      from attempts_Fell_through [OF this] show ?thesis
        by (simp add: MAX_RETRIES_def)
    next
      case (Some e)
      with a Fell_through assms show ?thesis by (auto simp add: callClaude_def)
    qed
  qed
qed

text \<open>A completed interaction is handed to the recorder.\<close>

lemma ask_records_completed_interaction:
  assumes "findRelevantChunks rx knowledgeDir question 3 (knowledge sv) = (Inr relevantChunks, st)"
      and "callClaude backend (SYSTEM_PROMPT_TEMPLATE (elements st relevantChunks)) question
             (uuidv4 (uuids_drawn sv)) (gateway sv) = (Inr claudeResult, w)"
      and "LANGFUSE_ENABLED (recorder sv)" and "keys_configured (recorder sv)"
  shows "\<exists>r sv'. ask rx knowledgeDir backend uuidv4 question sessionId sv = (Inr r, sv')
           \<and> answer r = result_text claudeResult
           \<and> tokens_used r = of_input (tokens claudeResult) + of_output (tokens claudeResult)
           \<and> length (traces (recorder sv')) = length (traces (recorder sv)) + 1"
  using assms by (simp add: ask_def Let_def recordTrace_def getLangfuseClient_def)

text \<open>
  C8. When the retrieval has returned and the call of the Model Gateway fails, what the
  gateway threw is an \<open>AgentError\<close>, and \<open>ask\<close> throws that same error, value for value;
  it returns no result, and the state of the recorder is what it was before the call:
  \<open>recordTrace\<close> has not been invoked.
\<close>

theorem ask_rethrows_gateway_error:
  assumes "findRelevantChunks rx knowledgeDir question 3 (knowledge sv) = (Inr relevantChunks, st)"
      and "callClaude backend (SYSTEM_PROMPT_TEMPLATE (elements st relevantChunks)) question
             (uuidv4 (uuids_drawn sv)) (gateway sv) = (Inl thrown, w)"
  shows "\<exists>err. thrown = Throw_AgentError err
           \<and> ask rx knowledgeDir backend uuidv4 question sessionId sv =
               (Inl (Thrown_by_gateway (Throw_AgentError err)),
                sv\<lparr>uuids_drawn := uuids_drawn sv + 1, knowledge := st, gateway := w\<rparr>)
           \<and> recorder (snd (ask rx knowledgeDir backend uuidv4 question sessionId sv)) = recorder sv"
proof -
  from callClaude_throws_AgentError [OF assms(2)] obtain err where "thrown = Throw_AgentError err"
    by blast
  with assms show ?thesis
    by (simp add: ask_def Let_def)
qed

theorem ask_rethrows_gateway_error_witness:
  "findRelevantChunks RegExp_g knowledge_dir ''test'' 3 (knowledge service0) =
     (Inr 3, \<lparr>objects = [intro_chunk, authentication_chunk, limits_chunk,
                        intro_chunk\<lparr>score := Some 0\<rparr>, authentication_chunk\<lparr>score := Some 0\<rparr>,
                        limits_chunk\<lparr>score := Some 0\<rparr>],
             arrays = [[0, 1, 2], [3, 4, 5], [], []], chunksCache = Some 0\<rparr>)
   \<and> fst (callClaude backend_401 (SYSTEM_PROMPT_TEMPLATE []) ''test'' (uuid_fixture 0) (gateway service0))
       = Inl (Throw_AgentError (AgentError ''Claude API call failed after retries'' (Some apiError)))
   \<and> fst (ask RegExp_g knowledge_dir backend_401 uuid_fixture ''test'' None service0)
       = Inl (Thrown_by_gateway
               (Throw_AgentError (AgentError ''Claude API call failed after retries'' (Some apiError))))
   \<and> recorder (snd (ask RegExp_g knowledge_dir backend_401 uuid_fixture ''test'' None service0))
       = recorder service0"
proof -
  let ?st = "\<lparr>objects = [intro_chunk, authentication_chunk, limits_chunk,
                        intro_chunk\<lparr>score := Some 0\<rparr>, authentication_chunk\<lparr>score := Some 0\<rparr>,
                        limits_chunk\<lparr>score := Some 0\<rparr>],
             arrays = [[0, 1, 2], [3, 4, 5], [], []], chunksCache = Some 0\<rparr>"
  have r: "findRelevantChunks RegExp_g knowledge_dir ''test'' 3 loaded_store = (Inr 3, ?st)"
    by code_simp
  then have r': "findRelevantChunks RegExp_g knowledge_dir ''test'' 3 (knowledge service0) = (Inr 3, ?st)"
    by (simp add: service0_def)
  have el: "elements ?st 3 = []"
    by (simp add: elements_def)
  have c: "callClaude backend_401 (SYSTEM_PROMPT_TEMPLATE (elements ?st 3)) ''test''
             (uuid_fixture (uuids_drawn service0)) (gateway service0)
           = (Inl (Throw_AgentError (AgentError ''Claude API call failed after retries'' (Some apiError))),
              \<lparr>now = 50, calls = 1, slept = [], env_ANTHROPIC_MODEL = None\<rparr>)"
    by (simp add: callClaude_def attempts.simps MAX_RETRIES_def messages_create_def world0_def
          service0_def backend_401_def apiError_def truthy_status_def isRetryableError_def Let_def)
  from ask_rethrows_gateway_error
         [where rx = RegExp_g and knowledgeDir = knowledge_dir and question = "''test''"
            and sv = service0 and backend = backend_401 and ?uuidv4.0 = uuid_fixture
            and sessionId = None, OF r' c]
  show ?thesis
    using r' c el by (auto simp add: service0_def)
qed

end
